theory Spec2Isabelle
  imports
    Complex_Main
    "HOL-Library.Char_ord"
    "HOL-Library.List_Lexorder"
    "HOL-Library.Product_Lexorder"
    "HOL-Library.Sublist"
begin

section \<open>The e-commerce dashboard: data model\<close>

text \<open>
  The program (\<^verbatim>\<open>ecommerce.py\<close>) reads a CSV file into a pandas data frame, filters
  it with the values chosen in the sidebar, computes six summary metrics and builds a
  fixed catalogue of charts.

  A numeric cell is a number or pandas' missing value \<open>NaN\<close>. Numbers are rationals:
  nothing below depends on floating-point rounding. A label cell is a string, or
  \<open>None\<close> for a missing value.
\<close>

datatype number = Num rat | NaN

text \<open>
  One row of the data set, with the twelve columns the program reads. A column of
  labels is one the program groups by, counts or tests for membership and equality; a
  column of numbers is one it compares, sums or averages.
\<close>

record order_row =
  order_month :: "string option"
  product_category_name_english :: "string option"
  customer_state :: "string option"
  review_score :: number
  payment_type :: "string option"
  total_order_value :: number
  freight_value :: number
  price :: number
  customer_unique_id :: "string option"
  delivery_days :: number
  estimated_days :: number
  delivery_delay :: number

text \<open>
  A data frame: the names of the columns it has (\<^verbatim>\<open>df.columns\<close>) and its rows.
  Every column is optional. A field of a row whose column is not among \<open>columns\<close>
  cannot be read: \<open>column\<close> raises \<^verbatim>\<open>KeyError\<close>, as \<^verbatim>\<open>df[name]\<close> does.
\<close>

record dataframe =
  columns :: "string list"
  rows :: "order_row list"

datatype error = KeyError string | ValueError | TypeError

text \<open>
  A raised exception ends the computation: the rest runs only on a result.
\<close>

fun bind_result :: "error + 'a \<Rightarrow> ('a \<Rightarrow> error + 'b) \<Rightarrow> error + 'b" where
  "bind_result (Inl e) f = Inl e"
| "bind_result (Inr x) f = f x"

definition len :: "dataframe \<Rightarrow> nat" where
  "len df = length (rows df)"

definition has_column :: "string \<Rightarrow> dataframe \<Rightarrow> bool" where
  "has_column name df = (name \<in> set (columns df))"

definition column :: "dataframe \<Rightarrow> string \<Rightarrow> (order_row \<Rightarrow> 'a) \<Rightarrow> error + 'a list" where
  "column df name field =
     (if has_column name df then Inr (map field (rows df)) else Inl (KeyError name))"

subsection \<open>Series operations\<close>

text \<open>The numbers of a series, the missing values skipped (\<^verbatim>\<open>skipna=True\<close>).\<close>

fun dropna :: "number list \<Rightarrow> rat list" where
  "dropna [] = []"
| "dropna (Num v # xs) = v # dropna xs"
| "dropna (NaN # xs) = dropna xs"

text \<open>\<^verbatim>\<open>Series.sum()\<close>: the sum of the numbers present, 0 when there is none.\<close>

definition series_sum :: "number list \<Rightarrow> number" where
  "series_sum xs = Num (sum_list (dropna xs))"

text \<open>\<^verbatim>\<open>Series.mean()\<close>: the mean of the numbers present, \<open>NaN\<close> when there is none.\<close>

definition series_mean :: "number list \<Rightarrow> number" where
  "series_mean xs =
     (let vs = dropna xs in
      if vs = [] then NaN else Num (sum_list vs / of_nat (length vs)))"

text \<open>\<^verbatim>\<open>Series.nunique()\<close>: the number of distinct values, missing values not counted.\<close>

definition nunique :: "string option list \<Rightarrow> nat" where
  "nunique xs = length (remdups (List.map_filter id xs))"

section \<open>KpiCalculator: \<^verbatim>\<open>calculate_kpis\<close>\<close>

record kpis =
  total_orders :: nat
  total_revenue :: number
  avg_rating :: number
  avg_freight_cost :: number
  total_customers :: nat
  avg_price :: number

text \<open>
  A metric whose column is present is computed from the column; otherwise it is the
  default. The column is read only under the guard, as in the source's conditional
  expressions.
\<close>

definition metric :: "dataframe \<Rightarrow> string \<Rightarrow> (order_row \<Rightarrow> 'a) \<Rightarrow> ('a list \<Rightarrow> 'b) \<Rightarrow> 'b \<Rightarrow> error + 'b" where
  "metric df name field agg dflt =
     (if has_column name df
      then bind_result (column df name field) (\<lambda>col. Inr (agg col))
      else Inr dflt)"

definition calculate_kpis :: "dataframe \<Rightarrow> error + kpis" where
  "calculate_kpis df =
     (if len df = 0 then
        Inr \<lparr>total_orders = 0, total_revenue = Num 0, avg_rating = Num 0,
             avg_freight_cost = Num 0, total_customers = 0, avg_price = Num 0\<rparr>
      else
        bind_result (metric df ''total_order_value'' total_order_value series_sum (Num 0)) (\<lambda>revenue.
        bind_result (metric df ''review_score'' review_score series_mean (Num 0)) (\<lambda>rating.
        bind_result (metric df ''freight_value'' freight_value series_mean (Num 0)) (\<lambda>freight.
        bind_result (metric df ''customer_unique_id'' customer_unique_id nunique 0) (\<lambda>customers.
        bind_result (metric df ''price'' price series_mean (Num 0)) (\<lambda>avg.
        Inr \<lparr>total_orders = len df, total_revenue = revenue, avg_rating = rating,
             avg_freight_cost = freight, total_customers = customers, avg_price = avg\<rparr>))))))"

section \<open>FilterEngine: \<^verbatim>\<open>apply_filters\<close>\<close>

text \<open>
  The values chosen in the sidebar: three multi-selects, the two ends of the review-score
  slider and the payment-type select box. They are the user's input; the sentinel
  \<^verbatim>\<open>'All'\<close> means that the column is not filtered.
\<close>

record selections =
  selected_months :: "string list"
  selected_category :: "string list"
  selected_states :: "string list"
  min_review :: int
  max_review :: int
  selected_payment :: string

text \<open>
  Boolean masks. A missing value is in no list of labels, equals no label and fails
  every comparison.
\<close>

fun label_in :: "string option \<Rightarrow> string list \<Rightarrow> bool" where
  "label_in None vals = False"
| "label_in (Some s) vals = (s \<in> set vals)"

definition isin :: "string option list \<Rightarrow> string list \<Rightarrow> bool list" where
  "isin col vals = map (\<lambda>v. label_in v vals) col"

definition ge_mask :: "number list \<Rightarrow> int \<Rightarrow> bool list" where
  "ge_mask col n = map (\<lambda>v. case v of NaN \<Rightarrow> False | Num x \<Rightarrow> of_int n \<le> x) col"

definition le_mask :: "number list \<Rightarrow> int \<Rightarrow> bool list" where
  "le_mask col n = map (\<lambda>v. case v of NaN \<Rightarrow> False | Num x \<Rightarrow> x \<le> of_int n) col"

definition and_mask :: "bool list \<Rightarrow> bool list \<Rightarrow> bool list" where
  "and_mask xs ys = map (\<lambda>(a, b). a \<and> b) (zip xs ys)"

definition eq_mask :: "string option list \<Rightarrow> string \<Rightarrow> bool list" where
  "eq_mask col s = map (\<lambda>v. v = Some s) col"

text \<open>\<^verbatim>\<open>df[mask]\<close>: a new frame with the rows at which the mask is true.\<close>

definition boolean_index :: "dataframe \<Rightarrow> bool list \<Rightarrow> dataframe" where
  "boolean_index df flags = df\<lparr>rows := map fst (filter snd (zip (rows df) flags))\<rparr>"

text \<open>The three kinds of filtering statement of \<^verbatim>\<open>apply_filters\<close>.\<close>

definition where_isin :: "string \<Rightarrow> (order_row \<Rightarrow> string option) \<Rightarrow> string list \<Rightarrow> dataframe \<Rightarrow> error + dataframe" where
  "where_isin name field vals filtered_df =
     bind_result (column filtered_df name field) (\<lambda>col.
     Inr (boolean_index filtered_df (isin col vals)))"

definition where_between :: "string \<Rightarrow> (order_row \<Rightarrow> number) \<Rightarrow> int \<Rightarrow> int \<Rightarrow> dataframe \<Rightarrow> error + dataframe" where
  "where_between name field lo hi filtered_df =
     bind_result (column filtered_df name field) (\<lambda>col1.
     bind_result (column filtered_df name field) (\<lambda>col2.
     Inr (boolean_index filtered_df (and_mask (ge_mask col1 lo) (le_mask col2 hi)))))"

definition where_eq :: "string \<Rightarrow> (order_row \<Rightarrow> string option) \<Rightarrow> string \<Rightarrow> dataframe \<Rightarrow> error + dataframe" where
  "where_eq name field val filtered_df =
     bind_result (column filtered_df name field) (\<lambda>col.
     Inr (boolean_index filtered_df (eq_mask col val)))"

text \<open>
  Lines 59 to 76 of the source. The guards read the columns of \<open>df\<close>, the statements
  filter \<open>filtered_df\<close>. The review-score range is applied whenever the column is
  present: it has no sentinel.
\<close>

definition apply_filters :: "dataframe \<Rightarrow> selections \<Rightarrow> error + dataframe" where
  "apply_filters df sel =
     bind_result (Inr df) (\<lambda>filtered_df.
     bind_result
       (if has_column ''order_month'' df \<and> ''All'' \<notin> set (selected_months sel)
        then where_isin ''order_month'' order_month (selected_months sel) filtered_df
        else Inr filtered_df) (\<lambda>filtered_df.
     bind_result
       (if has_column ''product_category_name_english'' df \<and> ''All'' \<notin> set (selected_category sel)
        then where_isin ''product_category_name_english'' product_category_name_english
               (selected_category sel) filtered_df
        else Inr filtered_df) (\<lambda>filtered_df.
     bind_result
       (if has_column ''customer_state'' df \<and> ''All'' \<notin> set (selected_states sel)
        then where_isin ''customer_state'' customer_state (selected_states sel) filtered_df
        else Inr filtered_df) (\<lambda>filtered_df.
     bind_result
       (if has_column ''review_score'' df
        then where_between ''review_score'' review_score (min_review sel) (max_review sel)
               filtered_df
        else Inr filtered_df) (\<lambda>filtered_df.
     bind_result
       (if has_column ''payment_type'' df \<and> selected_payment sel \<noteq> ''All''
        then where_eq ''payment_type'' payment_type (selected_payment sel) filtered_df
        else Inr filtered_df) (\<lambda>filtered_df.
     Inr filtered_df))))))"

text \<open>
  What \<^verbatim>\<open>apply_filters\<close> computes, row by row: a row stays when it passes every
  predicate whose guard holds.
\<close>

fun in_range :: "number \<Rightarrow> int \<Rightarrow> int \<Rightarrow> bool" where
  "in_range NaN lo hi = False"
| "in_range (Num x) lo hi = (of_int lo \<le> x \<and> x \<le> of_int hi)"

definition keeps :: "dataframe \<Rightarrow> selections \<Rightarrow> order_row \<Rightarrow> bool" where
  "keeps df sel r =
    ((has_column ''order_month'' df \<and> ''All'' \<notin> set (selected_months sel) \<longrightarrow>
        label_in (order_month r) (selected_months sel)) \<and>
     (has_column ''product_category_name_english'' df \<and> ''All'' \<notin> set (selected_category sel) \<longrightarrow>
        label_in (product_category_name_english r) (selected_category sel)) \<and>
     (has_column ''customer_state'' df \<and> ''All'' \<notin> set (selected_states sel) \<longrightarrow>
        label_in (customer_state r) (selected_states sel)) \<and>
     (has_column ''review_score'' df \<longrightarrow>
        in_range (review_score r) (min_review sel) (max_review sel)) \<and>
     (has_column ''payment_type'' df \<and> selected_payment sel \<noteq> ''All'' \<longrightarrow>
        payment_type r = Some (selected_payment sel)))"

subsection \<open>The same statements on a store of objects\<close>

text \<open>
  In Python \<open>df\<close> and \<open>filtered_df\<close> are references to data-frame objects. To say that
  the source table is not mutated, the statements of \<^verbatim>\<open>apply_filters\<close> are also
  modelled on a store: a list of objects, an object's address being its index.
  \<^verbatim>\<open>df.copy()\<close> and \<^verbatim>\<open>filtered_df[mask]\<close> each build a new object;
  the assignment rebinds the variable \<open>filtered_df\<close> to it. No statement writes to an
  existing object. A reference always points into the store, so \<open>s ! a\<close> is read only
  at addresses below \<open>length s\<close>.
\<close>

type_synonym store = "dataframe list"

definition new_object :: "store \<Rightarrow> dataframe \<Rightarrow> nat \<times> store" where
  "new_object s d = (length s, s @ [d])"

definition copy_frame :: "store \<Rightarrow> nat \<Rightarrow> nat \<times> store" where
  "copy_frame s a = new_object s (s ! a)"

definition rebind :: "(dataframe \<Rightarrow> error + dataframe) \<Rightarrow> nat \<times> store \<Rightarrow> error + nat \<times> store" where
  "rebind stmt = (\<lambda>(filtered_df, s).
     bind_result (stmt (s ! filtered_df)) (\<lambda>d. Inr (new_object s d)))"

definition apply_filters_store :: "store \<Rightarrow> nat \<Rightarrow> selections \<Rightarrow> error + nat \<times> store" where
  "apply_filters_store s0 df sel =
     bind_result (Inr (copy_frame s0 df)) (\<lambda>(filtered_df, s).
     bind_result
       (if has_column ''order_month'' (s ! df) \<and> ''All'' \<notin> set (selected_months sel)
        then rebind (where_isin ''order_month'' order_month (selected_months sel)) (filtered_df, s)
        else Inr (filtered_df, s)) (\<lambda>(filtered_df, s).
     bind_result
       (if has_column ''product_category_name_english'' (s ! df) \<and> ''All'' \<notin> set (selected_category sel)
        then rebind (where_isin ''product_category_name_english'' product_category_name_english
               (selected_category sel)) (filtered_df, s)
        else Inr (filtered_df, s)) (\<lambda>(filtered_df, s).
     bind_result
       (if has_column ''customer_state'' (s ! df) \<and> ''All'' \<notin> set (selected_states sel)
        then rebind (where_isin ''customer_state'' customer_state (selected_states sel)) (filtered_df, s)
        else Inr (filtered_df, s)) (\<lambda>(filtered_df, s).
     bind_result
       (if has_column ''review_score'' (s ! df)
        then rebind (where_between ''review_score'' review_score (min_review sel) (max_review sel))
               (filtered_df, s)
        else Inr (filtered_df, s)) (\<lambda>(filtered_df, s).
     bind_result
       (if has_column ''payment_type'' (s ! df) \<and> selected_payment sel \<noteq> ''All''
        then rebind (where_eq ''payment_type'' payment_type (selected_payment sel)) (filtered_df, s)
        else Inr (filtered_df, s)) (\<lambda>(filtered_df, s).
     Inr (filtered_df, s)))))))"

subsection \<open>The sidebar's defaults\<close>

text \<open>
  \<^verbatim>\<open>Series.min()\<close> and \<^verbatim>\<open>Series.max()\<close> skip missing values and are \<open>NaN\<close> when
  nothing is left. \<^verbatim>\<open>int(x)\<close> truncates towards zero and raises \<^verbatim>\<open>ValueError\<close> on
  \<open>NaN\<close>.
\<close>

definition series_min :: "number list \<Rightarrow> number" where
  "series_min xs = (case dropna xs of [] \<Rightarrow> NaN | v # vs \<Rightarrow> Num (fold min vs v))"

definition series_max :: "number list \<Rightarrow> number" where
  "series_max xs = (case dropna xs of [] \<Rightarrow> NaN | v # vs \<Rightarrow> Num (fold max vs v))"

fun py_int :: "number \<Rightarrow> error + int" where
  "py_int NaN = Inl ValueError"
| "py_int (Num x) = Inr (if 0 \<le> x then \<lfloor>x\<rfloor> else \<lceil>x\<rceil>)"

text \<open>
  Line 52: the slider runs from the smallest to the largest review score of the table,
  both made integers, and starts at this full range; without the column the range is
  1 to 5 (line 54).
\<close>

definition review_slider_default :: "dataframe \<Rightarrow> error + (int \<times> int)" where
  "review_slider_default df =
     (if has_column ''review_score'' df then
        bind_result (column df ''review_score'' review_score) (\<lambda>col.
        bind_result (py_int (series_min col)) (\<lambda>lo.
        bind_result (py_int (series_max col)) (\<lambda>hi.
        Inr (lo, hi))))
      else Inr (1, 5))"

text \<open>
  What the widgets return while the user has touched none: every multi-select is
  \<^verbatim>\<open>['All']\<close>, the select box shows its first option \<^verbatim>\<open>'All'\<close>, the slider its
  full range.
\<close>

definition sidebar_defaults :: "dataframe \<Rightarrow> error + selections" where
  "sidebar_defaults df =
     bind_result (review_slider_default df) (\<lambda>(lo, hi).
     Inr \<lparr>selected_months = [''All''], selected_category = [''All''],
          selected_states = [''All''], min_review = lo, max_review = hi,
          selected_payment = ''All''\<rparr>)"

section \<open>ChartBuilder: \<^verbatim>\<open>create_visualizations\<close>\<close>

text \<open>
  A grouped or counted series is a list of pairs of an index label and a value, in the
  order of the series.

  \<^verbatim>\<open>groupby(key)[col].agg()\<close>: one entry per distinct key, the keys in ascending
  order, rows without a key left out.
\<close>

definition groupby :: "string option list \<Rightarrow> number list \<Rightarrow> (number list \<Rightarrow> number) \<Rightarrow> (string \<times> number) list" where
  "groupby keys vals agg =
     map (\<lambda>k. (k, agg (map snd (filter (\<lambda>kv. fst kv = Some k) (zip keys vals)))))
       (sort (remdups (List.map_filter id keys)))"

text \<open>
  \<^verbatim>\<open>sort_values\<close> puts missing values last in either direction. Entries with equal
  values stay in the order they had; no property below depends on that order.
\<close>

fun ascending_key :: "number \<Rightarrow> bool \<times> rat" where
  "ascending_key (Num v) = (False, v)"
| "ascending_key NaN = (True, 0)"

fun descending_key :: "number \<Rightarrow> bool \<times> rat" where
  "descending_key (Num v) = (False, - v)"
| "descending_key NaN = (True, 0)"

definition sort_values :: "bool \<Rightarrow> (string \<times> number) list \<Rightarrow> (string \<times> number) list" where
  "sort_values ascending ser =
     sort_key (\<lambda>kv. if ascending then ascending_key (snd kv) else descending_key (snd kv)) ser"

definition head :: "nat \<Rightarrow> 'a list \<Rightarrow> 'a list" where
  "head n ser = take n ser"

text \<open>
  \<^verbatim>\<open>value_counts()\<close>: the number of rows per distinct value, the most frequent
  first, missing values not counted; values with equal counts are taken in the order
  of their first appearance.
\<close>

definition value_counts :: "string option list \<Rightarrow> (string \<times> number) list" where
  "value_counts col =
     (let vs = List.map_filter id col in
      sort_values False (map (\<lambda>k. (k, Num (of_nat (count_list vs k)))) (rev (remdups (rev vs)))))"

text \<open>
  A figure: the chart kind, the title and the data bound to the two axes (for a pie
  chart the names and the values). Axis labels, colour scales and the template are
  presentation and are left out. The title says which chart of the catalogue it is.
\<close>

datatype datum = Text string | Value number

datatype chart_kind = Line | HBar | VBar | Histogram | Scatter | Box | Pie

record figure =
  kind :: chart_kind
  title :: string
  x_data :: "datum list"
  y_data :: "datum list"
  trendline :: "string option"

definition index_of :: "(string \<times> number) list \<Rightarrow> datum list" where
  "index_of ser = map (\<lambda>kv. Text (fst kv)) ser"

definition values_of :: "(string \<times> number) list \<Rightarrow> datum list" where
  "values_of ser = map (\<lambda>kv. Value (snd kv)) ser"

text \<open>What the program shows, in the order in which the page is built.\<close>

datatype ui_event =
    Markdown string
  | ErrorBox string
  | SuccessBox nat nat
  | Metric string number
  | DownloadButton string dataframe string
  | DataframeView dataframe
  | InfoBox string
  | InfoCount string nat
  | WarningBox string
  | PlotlyChart figure
  | SidebarHeader string
  | Multiselect string "string option list"
  | Slider string int int
  | Selectbox string "string option list"
  | Checkbox string

text \<open>
  \<^verbatim>\<open>px.bar\<close> is called with the values and the index of a series as its \<open>x\<close> and
  \<open>y\<close>. With an empty series both are empty sequences, and plotly raises
  \<^verbatim>\<open>ValueError\<close>. A series is empty when no row has a group key.
\<close>

definition px_bar :: "chart_kind \<Rightarrow> string \<Rightarrow> datum list \<Rightarrow> datum list \<Rightarrow> error + figure" where
  "px_bar k t xs ys =
     (if xs = [] \<and> ys = [] then Inl ValueError
      else Inr \<lparr>kind = k, title = t, x_data = xs, y_data = ys, trendline = None\<rparr>)"

text \<open>The ten figures, each from the columns its guard asks for.\<close>

definition monthly_sales_chart :: "dataframe \<Rightarrow> error + figure" where
  "monthly_sales_chart df =
     bind_result (column df ''order_month'' order_month) (\<lambda>keys.
     bind_result (column df ''total_order_value'' total_order_value) (\<lambda>vals.
     let sales = groupby keys vals series_sum in
     Inr \<lparr>kind = Line, title = ''Total Monthly Sales Over Time'',
          x_data = index_of sales, y_data = values_of sales, trendline = None\<rparr>))"

definition state_sales_chart :: "dataframe \<Rightarrow> error + figure" where
  "state_sales_chart df =
     bind_result (column df ''customer_state'' customer_state) (\<lambda>keys.
     bind_result (column df ''total_order_value'' total_order_value) (\<lambda>vals.
     let state_sales = head 10 (sort_values True (groupby keys vals series_sum)) in
     px_bar HBar ''Top 10 States by Sales'' (values_of state_sales) (index_of state_sales)))"

definition category_count_chart :: "dataframe \<Rightarrow> error + figure" where
  "category_count_chart df =
     bind_result (column df ''product_category_name_english'' product_category_name_english) (\<lambda>col.
     let top = sort_values True (head 10 (value_counts col)) in
     px_bar HBar ''Top 10 Product Categories by Count'' (values_of top) (index_of top))"

definition price_histogram :: "dataframe \<Rightarrow> error + figure" where
  "price_histogram df =
     bind_result (column df ''price'' price) (\<lambda>col.
     Inr \<lparr>kind = Histogram, title = ''Distribution of Product Prices'',
          x_data = map Value col, y_data = [], trendline = None\<rparr>)"

definition freight_scatter :: "dataframe \<Rightarrow> error + figure" where
  "freight_scatter df =
     bind_result (column df ''price'' price) (\<lambda>xs.
     bind_result (column df ''freight_value'' freight_value) (\<lambda>ys.
     Inr \<lparr>kind = Scatter, title = ''Freight Cost vs Product Price'',
          x_data = map Value xs, y_data = map Value ys, trendline = None\<rparr>))"

definition delivery_box :: "dataframe \<Rightarrow> error + figure" where
  "delivery_box df =
     bind_result (column df ''review_score'' review_score) (\<lambda>xs.
     bind_result (column df ''delivery_days'' delivery_days) (\<lambda>ys.
     Inr \<lparr>kind = Box, title = ''Delivery Time by Review Score'',
          x_data = map Value xs, y_data = map Value ys, trendline = None\<rparr>))"

definition state_delivery_chart :: "dataframe \<Rightarrow> error + figure" where
  "state_delivery_chart df =
     bind_result (column df ''customer_state'' customer_state) (\<lambda>keys.
     bind_result (column df ''delivery_days'' delivery_days) (\<lambda>vals.
     let avg = sort_values True (head 10 (sort_values True (groupby keys vals series_mean))) in
     px_bar VBar ''Top 10 States by Avg Delivery Time'' (index_of avg) (values_of avg)))"

definition delay_scatter :: "dataframe \<Rightarrow> error + figure" where
  "delay_scatter df =
     bind_result (column df ''estimated_days'' estimated_days) (\<lambda>xs.
     bind_result (column df ''delivery_delay'' delivery_delay) (\<lambda>ys.
     Inr \<lparr>kind = Scatter, title = ''Delivery Delay vs. Estimated Delivery Time'',
          x_data = map Value xs, y_data = map Value ys, trendline = Some ''ols''\<rparr>))"

definition payment_pie :: "dataframe \<Rightarrow> error + figure" where
  "payment_pie df =
     bind_result (column df ''payment_type'' payment_type) (\<lambda>col.
     let counts = value_counts col in
     Inr \<lparr>kind = Pie, title = ''Payment Method Distribution'',
          x_data = index_of counts, y_data = values_of counts, trendline = None\<rparr>)"

definition payment_review_chart :: "dataframe \<Rightarrow> error + figure" where
  "payment_review_chart df =
     bind_result (column df ''payment_type'' payment_type) (\<lambda>keys.
     bind_result (column df ''review_score'' review_score) (\<lambda>vals.
     let avg = sort_values True (groupby keys vals series_mean) in
     px_bar VBar ''Avg Review Score by Payment Type'' (index_of avg) (values_of avg)))"

text \<open>A figure is built and shown only under its guard; an exception ends the run.\<close>

definition plot_if :: "bool \<Rightarrow> error + figure \<Rightarrow> error + ui_event list" where
  "plot_if guard fig = (if guard then bind_result fig (\<lambda>f. Inr [PlotlyChart f]) else Inr [])"

definition create_visualizations :: "dataframe \<Rightarrow> error + ui_event list" where
  "create_visualizations df =
     bind_result (plot_if (has_column ''order_month'' df \<and> has_column ''total_order_value'' df)
                    (monthly_sales_chart df)) (\<lambda>c1.
     bind_result (plot_if (has_column ''customer_state'' df \<and> has_column ''total_order_value'' df)
                    (state_sales_chart df)) (\<lambda>c2.
     bind_result (plot_if (has_column ''product_category_name_english'' df)
                    (category_count_chart df)) (\<lambda>c3.
     bind_result (plot_if (has_column ''price'' df) (price_histogram df)) (\<lambda>c4.
     bind_result (plot_if (has_column ''price'' df \<and> has_column ''freight_value'' df)
                    (freight_scatter df)) (\<lambda>c5.
     bind_result (plot_if (has_column ''review_score'' df \<and> has_column ''delivery_days'' df)
                    (delivery_box df)) (\<lambda>c6.
     bind_result (plot_if (has_column ''customer_state'' df \<and> has_column ''delivery_days'' df)
                    (state_delivery_chart df)) (\<lambda>c7.
     bind_result (plot_if (has_column ''estimated_days'' df \<and> has_column ''delivery_delay'' df)
                    (delay_scatter df)) (\<lambda>c8.
     bind_result (plot_if (has_column ''payment_type'' df) (payment_pie df)) (\<lambda>c9.
     bind_result (plot_if (has_column ''payment_type'' df \<and> has_column ''review_score'' df)
                    (payment_review_chart df)) (\<lambda>c10.
     Inr ([Markdown ''---'', Markdown ''### Data Visualizations'',
           Markdown ''#### Sales Analytics''] @ c1 @ c2 @
          [Markdown ''#### Product Analytics''] @ c3 @ c4 @ c5 @
          [Markdown ''#### Delivery Analytics''] @ c6 @ c7 @ c8 @
          [Markdown ''#### Payment Analytics''] @ c9 @ c10)))))))))))"

section \<open>The page: \<^verbatim>\<open>load_ecommerce_data\<close>, the sidebar, \<^verbatim>\<open>display_kpis\<close>, \<^verbatim>\<open>main\<close>\<close>

text \<open>
  The file system is a function from a path to the table that the file parses to,
  \<open>None\<close> when there is no such file: \<^verbatim>\<open>pd.read_csv\<close> then raises
  \<^verbatim>\<open>FileNotFoundError\<close>, which the loader catches. Message texts are given without
  their emoji.
\<close>

definition load_ecommerce_data :: "(string \<Rightarrow> dataframe option) \<Rightarrow> dataframe option \<times> ui_event list" where
  "load_ecommerce_data fs =
     (case fs ''ecommerce.csv'' of
        Some df \<Rightarrow> (Some df, [])
      | None \<Rightarrow>
          (None, [ErrorBox ''Please make sure 'ecommerce.csv' file is in the same directory as this script.'']))"

text \<open>
  Lines 40 to 57: the sidebar's widgets. \<^verbatim>\<open>unique()\<close> lists the values of a column
  in the order of their first appearance, a missing value included. Python's
  \<^verbatim>\<open>sorted\<close> raises \<^verbatim>\<open>TypeError\<close> when it has to compare a missing value (a float)
  with a string.
\<close>

definition unique :: "'a list \<Rightarrow> 'a list" where
  "unique xs = rev (remdups (rev xs))"

definition py_sorted :: "string option list \<Rightarrow> bool \<Rightarrow> error + string option list" where
  "py_sorted xs reverse =
     (let strs = List.map_filter id xs in
      if strs = [] then Inr xs
      else if None \<in> set xs then Inl TypeError
      else Inr (map Some (if reverse then rev (sort strs) else sort strs)))"

definition widget_options :: "dataframe \<Rightarrow> string \<Rightarrow> (order_row \<Rightarrow> string option) \<Rightarrow> bool \<Rightarrow> error + string option list" where
  "widget_options df name field reverse =
     (if has_column name df then
        bind_result (column df name field) (\<lambda>col.
        bind_result (py_sorted (unique col) reverse) (\<lambda>vals.
        Inr (Some ''All'' # vals)))
      else Inr [Some ''All''])"

text \<open>
  What the user has chosen in the widgets, and whether the raw-data box is ticked.
  The widgets return these values; the options and the slider's ends are computed
  first, and computing them can raise.
\<close>

record user_input =
  chosen :: selections
  show_raw_data :: bool

text \<open>
  Lines 51 to 54: with a \<^verbatim>\<open>review_score\<close> column the slider is built and returns the
  user's range; without it no slider is built and the range is 1 to 5.
\<close>

definition review_slider :: "dataframe \<Rightarrow> user_input \<Rightarrow> error + (int \<times> int) \<times> ui_event list" where
  "review_slider df ui =
     (if has_column ''review_score'' df then
        bind_result (review_slider_default df) (\<lambda>(lo, hi).
        Inr ((min_review (chosen ui), max_review (chosen ui)),
             [Slider ''Review Score Range:'' lo hi]))
      else Inr ((1, 5), []))"

definition sidebar :: "dataframe \<Rightarrow> user_input \<Rightarrow> error + selections \<times> ui_event list" where
  "sidebar df ui =
     bind_result (widget_options df ''order_month'' order_month False) (\<lambda>months.
     bind_result (widget_options df ''product_category_name_english''
                    product_category_name_english True) (\<lambda>categories.
     bind_result (widget_options df ''customer_state'' customer_state True) (\<lambda>states.
     bind_result (review_slider df ui) (\<lambda>(rng, slider).
     bind_result (widget_options df ''payment_type'' payment_type False) (\<lambda>payments.
     Inr ((chosen ui)\<lparr>min_review := fst rng, max_review := snd rng\<rparr>,
          [SidebarHeader ''Filter Options'',
           Multiselect ''Select Months:'' months,
           Multiselect ''Select Product Category:'' categories,
           Multiselect ''Select States:'' states] @
          slider @
          [Selectbox ''Payment Type:'' payments]))))))"

definition display_kpis :: "kpis \<Rightarrow> ui_event list" where
  "display_kpis k =
     [Markdown ''### Key Performance Indicators'',
      Metric ''Total Orders'' (Num (of_nat (total_orders k))),
      Metric ''Total Revenue'' (total_revenue k),
      Metric ''Avg Price'' (avg_price k),
      Metric ''Avg Rating'' (avg_rating k),
      Metric ''Total Customers'' (Num (of_nat (total_customers k))),
      Metric ''Avg Freight Cost'' (avg_freight_cost k)]"

text \<open>
  \<^verbatim>\<open>main\<close>. \<open>now k\<close> is what the clock's \<open>k\<close>-th reading formats to. The result is
  the page, or the exception that ended the run. The header's HTML is abbreviated to
  its heading; the page configuration and the style sheet, written when the module is
  imported, are left out, as is the computed memory usage.
\<close>

definition main :: "(string \<Rightarrow> dataframe option) \<Rightarrow> user_input \<Rightarrow> (nat \<Rightarrow> string) \<Rightarrow> error + ui_event list" where
  "main fs ui now =
     (let header = [Markdown ''E-commerce Analytics Dashboard''];
          loaded = load_ecommerce_data fs
      in case fst loaded of
        Some df \<Rightarrow>
          bind_result (sidebar df ui) (\<lambda>(sel, widgets).
          bind_result (apply_filters df sel) (\<lambda>filtered_df.
          bind_result (calculate_kpis filtered_df) (\<lambda>kpis.
          bind_result
            (if len filtered_df > 0 then create_visualizations filtered_df
             else Inr [WarningBox ''No data available with current filters.'']) (\<lambda>charts.
          Inr (header @ snd loaded @ widgets @
               [SuccessBox (len filtered_df) (len df)] @
               display_kpis kpis @
               [Markdown ''---''] @
               (if len filtered_df > 0
                then [DownloadButton ''Download Filtered Data'' filtered_df
                        (''ecommerce_data_filtered_'' @ now 0 @ ''.csv'')]
                else []) @
               [DownloadButton ''Download Full Dataset'' df
                  (''ecommerce_data_full_'' @ now (if len filtered_df > 0 then 1 else 0) @ ''.csv'')] @
               [Checkbox ''Show Raw Data''] @
               (if show_raw_data ui
                then [Markdown ''### Raw Data Preview''] @
                     (if len filtered_df > 0 then [DataframeView filtered_df]
                      else [InfoBox ''No data to display with current filters''])
                else []) @
               charts @
               [Markdown ''---'', Markdown ''### Dataset Information'',
                InfoCount ''Total Records'' (len filtered_df),
                InfoCount ''Total Columns'' (length (columns filtered_df)),
                InfoBox ''Memory Usage'',
                Markdown ''---'', Markdown ''E-commerce Analytics Dashboard v1.0''])))))
      | None \<Rightarrow>
          Inr (header @ snd loaded @
               [ErrorBox ''Unable to load the dataset. Please check if 'ecommerce.csv' exists in the current directory.'']))"

text \<open>
  The operations of the page on data: an event that shows filtered rows, a metric, a
  chart or an export, or a widget of the filter.
\<close>

fun data_event :: "ui_event \<Rightarrow> bool" where
  "data_event (Markdown _) = False"
| "data_event (ErrorBox _) = False"
| "data_event _ = True"

section \<open>Removing a column\<close>

definition drop_column :: "string \<Rightarrow> dataframe \<Rightarrow> dataframe" where
  "drop_column c df = df\<lparr>columns := removeAll c (columns df)\<rparr>"

text \<open>The metric computed from a column, set to its default.\<close>

definition zero_metric :: "string \<Rightarrow> kpis \<Rightarrow> kpis" where
  "zero_metric c k =
     (if c = ''total_order_value'' then k\<lparr>total_revenue := Num 0\<rparr>
      else if c = ''review_score'' then k\<lparr>avg_rating := Num 0\<rparr>
      else if c = ''freight_value'' then k\<lparr>avg_freight_cost := Num 0\<rparr>
      else if c = ''customer_unique_id'' then k\<lparr>total_customers := 0\<rparr>
      else if c = ''price'' then k\<lparr>avg_price := Num 0\<rparr>
      else k)"

text \<open>The columns each figure of the catalogue is built from, by its title.\<close>

definition chart_columns :: "string \<Rightarrow> string list" where
  "chart_columns t =
     (if t = ''Total Monthly Sales Over Time'' then [''order_month'', ''total_order_value'']
      else if t = ''Top 10 States by Sales'' then [''customer_state'', ''total_order_value'']
      else if t = ''Top 10 Product Categories by Count'' then [''product_category_name_english'']
      else if t = ''Distribution of Product Prices'' then [''price'']
      else if t = ''Freight Cost vs Product Price'' then [''price'', ''freight_value'']
      else if t = ''Delivery Time by Review Score'' then [''review_score'', ''delivery_days'']
      else if t = ''Top 10 States by Avg Delivery Time'' then [''customer_state'', ''delivery_days'']
      else if t = ''Delivery Delay vs. Estimated Delivery Time'' then [''estimated_days'', ''delivery_delay'']
      else if t = ''Payment Method Distribution'' then [''payment_type'']
      else if t = ''Avg Review Score by Payment Type'' then [''payment_type'', ''review_score'']
      else [])"

fun shown_without :: "string \<Rightarrow> ui_event \<Rightarrow> bool" where
  "shown_without c (PlotlyChart fig) = (c \<notin> set (chart_columns (title fig)))"
| "shown_without c _ = True"

text \<open>
  The top-N rule in the specification's words: sort descending by the aggregated value,
  keep the first \<open>n\<close>, then sort ascending for display.
\<close>

definition top_n_spec :: "nat \<Rightarrow> (string \<times> number) list \<Rightarrow> (string \<times> number) list" where
  "top_n_spec n ser = sort_values True (head n (sort_values False ser))"

text \<open>Example data.\<close>

definition blank_row :: order_row where
  "blank_row =
     \<lparr>order_month = None, product_category_name_english = None, customer_state = None,
      review_score = NaN, payment_type = None, total_order_value = NaN,
      freight_value = NaN, price = NaN, customer_unique_id = None,
      delivery_days = NaN, estimated_days = NaN, delivery_delay = NaN\<rparr>"

definition demo_frame :: dataframe where
  "demo_frame =
     \<lparr>columns = [''customer_unique_id'', ''price''],
      rows = [blank_row\<lparr>customer_unique_id := Some ''u1'', price := Num 10\<rparr>,
              blank_row\<lparr>customer_unique_id := Some ''u1'', price := Num 20\<rparr>,
              blank_row\<lparr>customer_unique_id := Some ''u2'', price := NaN\<rparr>]\<rparr>"

definition review_frame :: dataframe where
  "review_frame =
     \<lparr>columns = [''review_score'', ''payment_type''],
      rows = [blank_row\<lparr>review_score := Num 5, payment_type := Some ''credit_card''\<rparr>,
              blank_row\<lparr>review_score := Num 3, payment_type := Some ''voucher''\<rparr>,
              blank_row\<lparr>review_score := Num 4, payment_type := Some ''credit_card''\<rparr>]\<rparr>"

definition nan_frame :: dataframe where
  "nan_frame =
     \<lparr>columns = [''review_score''],
      rows = [blank_row\<lparr>review_score := Num 5\<rparr>, blank_row\<lparr>review_score := NaN\<rparr>,
              blank_row\<lparr>review_score := Num 3\<rparr>]\<rparr>"

text \<open>
  A state of the run on the store \<open>s0\<close>: the objects of \<open>s0\<close> are still there,
  unchanged, and \<open>filtered_df\<close> refers to a newer object whose value is \<open>cur\<close>.
\<close>

definition extends :: "store \<Rightarrow> dataframe \<Rightarrow> nat \<times> store \<Rightarrow> bool" where
  "extends s0 cur = (\<lambda>(a, t). take (length s0) t = s0 \<and> length s0 \<le> a \<and> a < length t \<and> t ! a = cur)"



definition review_pick :: selections where
  "review_pick =
     \<lparr>selected_months = [''All''], selected_category = [''All''],
      selected_states = [''All''], min_review = 4, max_review = 5,
      selected_payment = ''All''\<rparr>"

definition state_row :: "string \<Rightarrow> rat \<Rightarrow> order_row" where
  "state_row st v = blank_row\<lparr>customer_state := Some st, total_order_value := Num v\<rparr>"

definition eleven_states :: dataframe where
  "eleven_states =
     \<lparr>columns = [''customer_state'', ''total_order_value''],
      rows = [state_row ''K'' 11, state_row ''A'' 1, state_row ''B'' 2, state_row ''C'' 3,
              state_row ''D'' 4, state_row ''E'' 5, state_row ''F'' 6, state_row ''G'' 7,
              state_row ''H'' 8, state_row ''I'' 9, state_row ''J'' 10, state_row ''A'' 0]\<rparr>"

definition stateless_frame :: dataframe where
  "stateless_frame =
     \<lparr>columns = [''customer_state'', ''total_order_value'', ''price''],
      rows = [blank_row\<lparr>total_order_value := Num 10, price := Num 5\<rparr>]\<rparr>"

definition unrated_frame :: dataframe where
  "unrated_frame =
     \<lparr>columns = [''review_score'', ''price''],
      rows = [blank_row\<lparr>price := Num 5\<rparr>]\<rparr>"

definition review_input :: user_input where
  "review_input = \<lparr>chosen = review_pick, show_raw_data = False\<rparr>"

section \<open>Properties of the metrics\<close>

lemma nunique_le_length: "nunique xs \<le> length xs"
proof -
  have "length (remdups (List.map_filter id xs)) \<le> length (List.map_filter id xs)"
    by (rule length_remdups_leq)
  also have "\<dots> \<le> length xs"
    by (simp add: map_filter_def)
  finally show ?thesis
    by (simp add: nunique_def)
qed

lemma metric_value:
  "metric df name field agg dflt = Inr (if has_column name df then agg (map field (rows df)) else dflt)"
  by (simp add: metric_def column_def)

text \<open>
  C3. On a table with zero rows \<^verbatim>\<open>calculate_kpis\<close> returns exactly 0 for each of the
  six metrics (the number 0, not \<open>NaN\<close>), whatever columns the table has.
\<close>

theorem calculate_kpis_empty:
  "len df = 0 \<Longrightarrow>
   calculate_kpis df =
     Inr \<lparr>total_orders = 0, total_revenue = Num 0, avg_rating = Num 0,
          avg_freight_cost = Num 0, total_customers = 0, avg_price = Num 0\<rparr>"
  by (simp add: calculate_kpis_def)

theorem calculate_kpis_empty_witness:
  "len \<lparr>columns = [''review_score'', ''price''], rows = []\<rparr> = 0 \<and>
   calculate_kpis \<lparr>columns = [''review_score'', ''price''], rows = []\<rparr> =
     Inr \<lparr>total_orders = 0, total_revenue = Num 0, avg_rating = Num 0,
          avg_freight_cost = Num 0, total_customers = 0, avg_price = Num 0\<rparr>"
  using calculate_kpis_empty [of "\<lparr>columns = [''review_score'', ''price''], rows = []\<rparr>"]
  by (simp add: len_def)

text \<open>
  C5. On a table with at least one row \<^verbatim>\<open>calculate_kpis\<close> raises nothing, its
  \<open>total_orders\<close> is the number of rows, and each of the other five metrics is 0 when
  the column it is computed from is missing.
\<close>

theorem calculate_kpis_nonempty:
  assumes "len df \<noteq> 0"
  shows "\<exists>k. calculate_kpis df = Inr k \<and> total_orders k = len df \<and>
    (\<not> has_column ''total_order_value'' df \<longrightarrow> total_revenue k = Num 0) \<and>
    (\<not> has_column ''review_score'' df \<longrightarrow> avg_rating k = Num 0) \<and>
    (\<not> has_column ''freight_value'' df \<longrightarrow> avg_freight_cost k = Num 0) \<and>
    (\<not> has_column ''customer_unique_id'' df \<longrightarrow> total_customers k = 0) \<and>
    (\<not> has_column ''price'' df \<longrightarrow> avg_price k = Num 0)"
  using assms
  by (simp add: calculate_kpis_def metric_def column_def)

theorem calculate_kpis_nonempty_witness:
  "len demo_frame \<noteq> 0 \<and>
   \<not> has_column ''total_order_value'' demo_frame \<and>
   \<not> has_column ''review_score'' demo_frame \<and>
   \<not> has_column ''freight_value'' demo_frame \<and>
   calculate_kpis demo_frame =
     Inr \<lparr>total_orders = 3, total_revenue = Num 0, avg_rating = Num 0,
          avg_freight_cost = Num 0, total_customers = 2, avg_price = Num 15\<rparr>"
proof -
  have ne: "len demo_frame \<noteq> 0"
    by (simp add: demo_frame_def len_def)
  have val: "calculate_kpis demo_frame =
     Inr \<lparr>total_orders = 3, total_revenue = Num 0, avg_rating = Num 0,
          avg_freight_cost = Num 0, total_customers = 2, avg_price = Num 15\<rparr>"
    by (simp add: calculate_kpis_def metric_def column_def has_column_def demo_frame_def
        len_def blank_row_def nunique_def series_mean_def List.map_filter_def)
  from calculate_kpis_nonempty [OF ne] val show ?thesis
    by (simp add: has_column_def demo_frame_def len_def)
qed

text \<open>
  C10. For every table \<^verbatim>\<open>calculate_kpis\<close> returns metrics with
  \<open>total_customers \<le> total_orders\<close>: the number of distinct customer identifiers
  never exceeds the number of rows.
\<close>

theorem customers_le_orders:
  "\<exists>k. calculate_kpis df = Inr k \<and> total_customers k \<le> total_orders k"
proof (cases "len df = 0")
  case True
  then show ?thesis by (simp add: calculate_kpis_def)
next
  case False
  have "nunique (map customer_unique_id (rows df)) \<le> len df"
    using nunique_le_length [of "map customer_unique_id (rows df)"] by (simp add: len_def)
  with False show ?thesis
    by (simp add: calculate_kpis_def metric_def column_def)
qed

theorem customers_le_orders_witness:
  "calculate_kpis demo_frame =
     Inr \<lparr>total_orders = 3, total_revenue = Num 0, avg_rating = Num 0,
          avg_freight_cost = Num 0, total_customers = 2, avg_price = Num 15\<rparr> \<and>
   (2::nat) \<le> 3"
proof -
  have "calculate_kpis demo_frame =
     Inr \<lparr>total_orders = 3, total_revenue = Num 0, avg_rating = Num 0,
          avg_freight_cost = Num 0, total_customers = 2, avg_price = Num 15\<rparr>"
    by (simp add: calculate_kpis_def metric_def column_def has_column_def demo_frame_def
        len_def blank_row_def nunique_def series_mean_def List.map_filter_def)
  with customers_le_orders [of demo_frame] show ?thesis
    by simp
qed

section \<open>Properties of the filter\<close>

lemma bind_result_Inr: "bind_result m f = Inr y \<longleftrightarrow> (\<exists>x. m = Inr x \<and> f x = Inr y)"
  by (cases m) simp_all

lemma boolean_index_map:
  "boolean_index df (map P (rows df)) = df\<lparr>rows := filter P (rows df)\<rparr>"
proof -
  have "map fst (filter snd (zip xs (map P xs))) = filter P xs" for xs :: "order_row list"
    by (induction xs) auto
  then show ?thesis by (simp add: boolean_index_def)
qed

lemma where_isin_rows:
  "has_column name d \<Longrightarrow>
   where_isin name field vals d =
     Inr (d\<lparr>rows := filter (\<lambda>r. label_in (field r) vals) (rows d)\<rparr>)"
proof -
  have "isin (map field (rows d)) vals = map (\<lambda>r. label_in (field r) vals) (rows d)"
    by (simp add: isin_def)
  then show "has_column name d \<Longrightarrow> ?thesis"
    by (simp add: where_isin_def column_def boolean_index_map)
qed

lemma where_eq_rows:
  "has_column name d \<Longrightarrow>
   where_eq name field val d = Inr (d\<lparr>rows := filter (\<lambda>r. field r = Some val) (rows d)\<rparr>)"
proof -
  have "eq_mask (map field (rows d)) val = map (\<lambda>r. field r = Some val) (rows d)"
    by (simp add: eq_mask_def)
  then show "has_column name d \<Longrightarrow> ?thesis"
    by (simp add: where_eq_def column_def boolean_index_map)
qed

lemma between_mask_map:
  "and_mask (ge_mask (map field xs) lo) (le_mask (map field xs) hi) =
   map (\<lambda>r. in_range (field r) lo hi) xs"
proof (induction xs)
  case Nil
  show ?case by (simp add: and_mask_def ge_mask_def le_mask_def)
next
  case (Cons r rs)
  then show ?case
    by (cases "field r") (simp_all add: and_mask_def ge_mask_def le_mask_def)
qed

lemma where_between_rows:
  "has_column name d \<Longrightarrow>
   where_between name field lo hi d =
     Inr (d\<lparr>rows := filter (\<lambda>r. in_range (field r) lo hi) (rows d)\<rparr>)"
  by (simp add: where_between_def column_def between_mask_map boolean_index_map)

lemma has_column_rows_update [simp]: "has_column name (d\<lparr>rows := rs\<rparr>) = has_column name d"
  by (simp add: has_column_def)

lemma isin_step:
  "columns d = columns df \<Longrightarrow>
   (if has_column name df \<and> a then where_isin name field vals d else Inr d) =
   Inr (d\<lparr>rows := filter (\<lambda>r. has_column name df \<and> a \<longrightarrow> label_in (field r) vals) (rows d)\<rparr>)"
  by (cases "has_column name df"; cases a; simp add: where_isin_rows has_column_def)

lemma between_step:
  "columns d = columns df \<Longrightarrow>
   (if has_column name df then where_between name field lo hi d else Inr d) =
   Inr (d\<lparr>rows := filter (\<lambda>r. has_column name df \<longrightarrow> in_range (field r) lo hi) (rows d)\<rparr>)"
  by (cases "has_column name df"; simp add: where_between_rows has_column_def)

lemma eq_step:
  "columns d = columns df \<Longrightarrow>
   (if has_column name df \<and> a then where_eq name field val d else Inr d) =
   Inr (d\<lparr>rows := filter (\<lambda>r. has_column name df \<and> a \<longrightarrow> field r = Some val) (rows d)\<rparr>)"
  by (cases "has_column name df"; cases a; simp add: where_eq_rows has_column_def)

lemma apply_filters_rows:
  "apply_filters df sel = Inr (df\<lparr>rows := filter (keeps df sel) (rows df)\<rparr>)"
  unfolding apply_filters_def keeps_def [abs_def]
  by (simp add: isin_step between_step eq_step split del: if_split)

lemma keeps_rows_update [simp]: "keeps (d\<lparr>rows := rs\<rparr>) sel = keeps d sel"
  by (simp add: keeps_def [abs_def])

lemmas eval_filters =
  apply_filters_def where_isin_def where_between_def where_eq_def column_def has_column_def
  boolean_index_def isin_def ge_mask_def le_mask_def and_mask_def eq_mask_def
  sidebar_defaults_def review_slider_default_def series_min_def series_max_def blank_row_def

text \<open>
  C6. For every table and every fixed selection the filter is idempotent: it returns a
  table, and filtering that table again with the same selection returns the same table.
\<close>

theorem apply_filters_idempotent:
  "\<exists>f. apply_filters df sel = Inr f \<and> apply_filters f sel = Inr f"
  by (simp add: apply_filters_rows)

theorem apply_filters_idempotent_witness:
  "apply_filters review_frame review_pick =
     Inr (review_frame\<lparr>rows :=
       [blank_row\<lparr>review_score := Num 5, payment_type := Some ''credit_card''\<rparr>,
        blank_row\<lparr>review_score := Num 4, payment_type := Some ''credit_card''\<rparr>]\<rparr>) \<and>
   apply_filters (review_frame\<lparr>rows :=
       [blank_row\<lparr>review_score := Num 5, payment_type := Some ''credit_card''\<rparr>,
        blank_row\<lparr>review_score := Num 4, payment_type := Some ''credit_card''\<rparr>]\<rparr>) review_pick =
     Inr (review_frame\<lparr>rows :=
       [blank_row\<lparr>review_score := Num 5, payment_type := Some ''credit_card''\<rparr>,
        blank_row\<lparr>review_score := Num 4, payment_type := Some ''credit_card''\<rparr>]\<rparr>)"
proof -
  have v: "apply_filters review_frame review_pick =
     Inr (review_frame\<lparr>rows :=
       [blank_row\<lparr>review_score := Num 5, payment_type := Some ''credit_card''\<rparr>,
        blank_row\<lparr>review_score := Num 4, payment_type := Some ''credit_card''\<rparr>]\<rparr>)"
    by (simp add: eval_filters review_frame_def review_pick_def)
  with apply_filters_idempotent [of review_frame review_pick] show ?thesis
    by auto
qed

text \<open>
  C2, as stated, fails. In \<open>nan_frame\<close> one of three rows has no review score. The
  sidebar's defaults are \<^verbatim>\<open>['All']\<close> for every multi-select, \<^verbatim>\<open>'All'\<close> for
  the payment type and the full observed range 3 to 5 for the review score; filtering
  with them drops the row without a score, so the result is not the input table.
\<close>

theorem unrestricted_drops_missing_scores:
  "sidebar_defaults nan_frame =
     Inr \<lparr>selected_months = [''All''], selected_category = [''All''],
          selected_states = [''All''], min_review = 3, max_review = 5,
          selected_payment = ''All''\<rparr> \<and>
   apply_filters nan_frame
     \<lparr>selected_months = [''All''], selected_category = [''All''],
      selected_states = [''All''], min_review = 3, max_review = 5,
      selected_payment = ''All''\<rparr> =
     Inr \<lparr>columns = [''review_score''],
          rows = [blank_row\<lparr>review_score := Num 5\<rparr>, blank_row\<lparr>review_score := Num 3\<rparr>]\<rparr> \<and>
   Inr \<lparr>columns = [''review_score''],
        rows = [blank_row\<lparr>review_score := Num 5\<rparr>, blank_row\<lparr>review_score := Num 3\<rparr>]\<rparr> \<noteq>
     (Inr nan_frame :: error + dataframe)"
  by (simp add: eval_filters nan_frame_def)

lemma fold_min_Min: "fold min vs (v :: rat) = Min (set (v # vs))"
  by (simp only: Min.set_eq_fold)

lemma fold_max_Max: "fold max vs (v :: rat) = Max (set (v # vs))"
  by (simp only: Max.set_eq_fold)

lemma dropna_set: "x \<in> set (dropna xs) \<longleftrightarrow> Num x \<in> set xs"
  by (induction xs rule: dropna.induct) auto

lemma series_min_bounds:
  assumes "series_min xs = Num m"
  shows "Num m \<in> set xs" and "Num x \<in> set xs \<Longrightarrow> m \<le> x"
proof -
  from assms obtain v vs where d: "dropna xs = v # vs" and m: "m = Min (set (v # vs))"
    by (auto simp: series_min_def fold_min_Min split: list.splits)
  have "m \<in> set (v # vs)"
    unfolding m by (rule Min_in) simp_all
  then show "Num m \<in> set xs"
    using d dropna_set [of m xs] by simp
  show "m \<le> x" if "Num x \<in> set xs"
  proof -
    from that have "x \<in> set (v # vs)" using d dropna_set [of x xs] by simp
    then show ?thesis unfolding m by (intro Min_le) simp_all
  qed
qed

lemma series_max_bounds:
  assumes "series_max xs = Num m"
  shows "Num m \<in> set xs" and "Num x \<in> set xs \<Longrightarrow> x \<le> m"
proof -
  from assms obtain v vs where d: "dropna xs = v # vs" and m: "m = Max (set (v # vs))"
    by (auto simp: series_max_def fold_max_Max split: list.splits)
  have "m \<in> set (v # vs)"
    unfolding m by (rule Max_in) simp_all
  then show "Num m \<in> set xs"
    using d dropna_set [of m xs] by simp
  show "x \<le> m" if "Num x \<in> set xs"
  proof -
    from that have "x \<in> set (v # vs)" using d dropna_set [of x xs] by simp
    then show ?thesis unfolding m by (intro Max_ge) simp_all
  qed
qed

lemma py_int_Inr: "py_int v = Inr n \<Longrightarrow> \<exists>x. v = Num x"
  by (cases v) simp_all

text \<open>
  C2, amended. When the sidebar's defaults can be computed and the \<^verbatim>\<open>review_score\<close>
  column is absent or holds only whole numbers (no missing value), filtering with the
  defaults returns a table equal to the input table.
\<close>

theorem apply_filters_defaults_identity:
  assumes dflt: "sidebar_defaults df = Inr sel"
      and whole: "has_column ''review_score'' df \<longrightarrow>
                  (\<forall>r \<in> set (rows df). \<exists>i. review_score r = Num (of_int i))"
  shows "apply_filters df sel = Inr df"
proof -
  from dflt obtain lo hi where rng: "review_slider_default df = Inr (lo, hi)"
    and sel: "sel = \<lparr>selected_months = [''All''], selected_category = [''All''],
          selected_states = [''All''], min_review = lo, max_review = hi,
          selected_payment = ''All''\<rparr>"
    by (cases "review_slider_default df") (auto simp: sidebar_defaults_def)
  have "keeps df sel r" if r: "r \<in> set (rows df)" for r
  proof (cases "has_column ''review_score'' df")
    case False
    then show ?thesis by (simp add: keeps_def sel)
  next
    case True
    let ?col = "map review_score (rows df)"
    from rng True have ints: "py_int (series_min ?col) = Inr lo" "py_int (series_max ?col) = Inr hi"
      by (auto simp: review_slider_default_def column_def bind_result_Inr)
    from ints obtain a b where a: "series_min ?col = Num a" and b: "series_max ?col = Num b"
      by (blast dest: py_int_Inr)
    from series_min_bounds(1) [OF a] whole True obtain i where i: "a = of_int i"
      by auto
    from series_max_bounds(1) [OF b] whole True obtain j where j: "b = of_int j"
      by auto
    from ints a b i j have lo: "lo = i" and hi: "hi = j"
      by (auto split: if_splits)
    from whole True r obtain k where k: "review_score r = Num (of_int k)" by blast
    then have mem: "Num (of_int k) \<in> set ?col" using r by force
    from series_min_bounds(2) [OF a mem] series_max_bounds(2) [OF b mem]
    have "of_int lo \<le> (of_int k :: rat)" "(of_int k :: rat) \<le> of_int hi"
      by (simp_all add: i j lo hi)
    with k True show ?thesis
      by (simp add: keeps_def sel)
  qed
  then have "filter (keeps df sel) (rows df) = rows df"
    by simp
  then show ?thesis
    by (simp add: apply_filters_rows)
qed

theorem apply_filters_defaults_identity_witness:
  "sidebar_defaults review_frame =
     Inr \<lparr>selected_months = [''All''], selected_category = [''All''],
          selected_states = [''All''], min_review = 3, max_review = 5,
          selected_payment = ''All''\<rparr> \<and>
   apply_filters review_frame
     \<lparr>selected_months = [''All''], selected_category = [''All''],
      selected_states = [''All''], min_review = 3, max_review = 5,
      selected_payment = ''All''\<rparr> = Inr review_frame"
proof -
  have d: "sidebar_defaults review_frame =
     Inr \<lparr>selected_months = [''All''], selected_category = [''All''],
          selected_states = [''All''], min_review = 3, max_review = 5,
          selected_payment = ''All''\<rparr>"
    by (simp add: eval_filters review_frame_def)
  have w: "has_column ''review_score'' review_frame \<longrightarrow>
       (\<forall>r \<in> set (rows review_frame). \<exists>i. review_score r = Num (of_int i))"
  proof -
    have "Num 5 = Num (of_int 5)" "Num 3 = Num (of_int 3)" "Num 4 = Num (of_int 4)"
      by simp_all
    then show ?thesis
      unfolding review_frame_def blank_row_def by (simp del: of_int_numeral)
  qed
  from apply_filters_defaults_identity [OF d w] d show ?thesis
    by simp
qed

lemma label_in_Nil [simp]: "label_in v [] = False"
  by (cases v) simp_all






section \<open>The filter does not mutate its input\<close>

lemma extends_copy: "df < length s0 \<Longrightarrow> extends s0 (s0 ! df) (copy_frame s0 df)"
  by (simp add: extends_def copy_frame_def new_object_def)

lemma extends_read:
  assumes "extends s0 cur (a, t)" and "df < length s0"
  shows "t ! df = s0 ! df"
proof -
  from assms(1) have "take (length s0) t = s0" by (simp add: extends_def)
  then have "s0 ! df = take (length s0) t ! df" by simp
  also have "\<dots> = t ! df" using assms(2) by simp
  finally show ?thesis by simp
qed

lemma extends_rebind:
  assumes "extends s0 cur (a, t)" and "stmt cur = Inr cur'"
  shows "\<exists>a' t'. rebind stmt (a, t) = Inr (a', t') \<and> extends s0 cur' (a', t')"
  using assms by (auto simp: extends_def rebind_def new_object_def)

lemma guarded_rebind:
  assumes ext: "extends s0 cur (a, t)" and df: "df < length s0"
      and pure: "(if g (s0 ! df) then stmt cur else Inr cur) = Inr cur'"
  shows "\<exists>a' t'. (if g (t ! df) then rebind stmt (a, t) else Inr (a, t)) = Inr (a', t') \<and>
                 extends s0 cur' (a', t')"
proof (cases "g (s0 ! df)")
  case True
  with pure have "stmt cur = Inr cur'" by simp
  from extends_rebind [of s0 cur a t stmt cur', OF ext this] True extends_read [OF ext df]
  show ?thesis by simp
next
  case False
  with pure have "cur' = cur" by simp
  with False ext extends_read [OF ext df] show ?thesis by simp
qed

lemma apply_filters_store_refines:
  assumes df: "df < length s0"
  shows "\<exists>out s. apply_filters_store s0 df sel = Inr (out, s) \<and>
                 (\<exists>d. apply_filters (s0 ! df) sel = Inr d \<and> extends s0 d (out, s))"
proof -
  let ?d0 = "s0 ! df"
  let ?g1 = "\<lambda>d. has_column ''order_month'' d \<and> ''All'' \<notin> set (selected_months sel)"
  let ?g2 = "\<lambda>d. has_column ''product_category_name_english'' d \<and> ''All'' \<notin> set (selected_category sel)"
  let ?g3 = "\<lambda>d. has_column ''customer_state'' d \<and> ''All'' \<notin> set (selected_states sel)"
  let ?g4 = "\<lambda>d. has_column ''review_score'' d"
  let ?g5 = "\<lambda>d. has_column ''payment_type'' d \<and> selected_payment sel \<noteq> ''All''"
  let ?st1 = "where_isin ''order_month'' order_month (selected_months sel)"
  let ?st2 = "where_isin ''product_category_name_english'' product_category_name_english (selected_category sel)"
  let ?st3 = "where_isin ''customer_state'' customer_state (selected_states sel)"
  let ?st4 = "where_between ''review_score'' review_score (min_review sel) (max_review sel)"
  let ?st5 = "where_eq ''payment_type'' payment_type (selected_payment sel)"
  obtain d1 where p1: "(if ?g1 ?d0 then ?st1 ?d0 else Inr ?d0) = Inr d1" and c1: "columns d1 = columns ?d0"
    using isin_step [of ?d0 ?d0 "''order_month''"] by simp
  obtain d2 where p2: "(if ?g2 ?d0 then ?st2 d1 else Inr d1) = Inr d2" and c2: "columns d2 = columns ?d0"
    using isin_step [of d1 ?d0 "''product_category_name_english''"] c1 by simp
  obtain d3 where p3: "(if ?g3 ?d0 then ?st3 d2 else Inr d2) = Inr d3" and c3: "columns d3 = columns ?d0"
    using isin_step [of d2 ?d0 "''customer_state''"] c2 by simp
  obtain d4 where p4: "(if ?g4 ?d0 then ?st4 d3 else Inr d3) = Inr d4" and c4: "columns d4 = columns ?d0"
    using between_step [of d3 ?d0 "''review_score''"] c3 by simp
  obtain d5 where p5: "(if ?g5 ?d0 then ?st5 d4 else Inr d4) = Inr d5"
    using eq_step [of d4 ?d0 "''payment_type''"] c4 by simp
  have pure: "apply_filters ?d0 sel = Inr d5"
    unfolding apply_filters_def
    by (simp only: bind_result.simps p1 p2 p3 p4 p5)
  obtain a0 t0 where e0: "copy_frame s0 df = (a0, t0)" and x0: "extends s0 ?d0 (a0, t0)"
    using extends_copy [OF df] by (cases "copy_frame s0 df") simp
  obtain a1 t1 where e1: "(if ?g1 (t0 ! df) then rebind ?st1 (a0, t0) else Inr (a0, t0)) = Inr (a1, t1)"
    and x1: "extends s0 d1 (a1, t1)"
    using guarded_rebind [of s0 ?d0 a0 t0 df ?g1 ?st1 d1, OF x0 df p1] by blast
  obtain a2 t2 where e2: "(if ?g2 (t1 ! df) then rebind ?st2 (a1, t1) else Inr (a1, t1)) = Inr (a2, t2)"
    and x2: "extends s0 d2 (a2, t2)"
    using guarded_rebind [of s0 d1 a1 t1 df ?g2 ?st2 d2, OF x1 df p2] by blast
  obtain a3 t3 where e3: "(if ?g3 (t2 ! df) then rebind ?st3 (a2, t2) else Inr (a2, t2)) = Inr (a3, t3)"
    and x3: "extends s0 d3 (a3, t3)"
    using guarded_rebind [of s0 d2 a2 t2 df ?g3 ?st3 d3, OF x2 df p3] by blast
  obtain a4 t4 where e4: "(if ?g4 (t3 ! df) then rebind ?st4 (a3, t3) else Inr (a3, t3)) = Inr (a4, t4)"
    and x4: "extends s0 d4 (a4, t4)"
    using guarded_rebind [of s0 d3 a3 t3 df ?g4 ?st4 d4, OF x3 df p4] by blast
  obtain a5 t5 where e5: "(if ?g5 (t4 ! df) then rebind ?st5 (a4, t4) else Inr (a4, t4)) = Inr (a5, t5)"
    and x5: "extends s0 d5 (a5, t5)"
    using guarded_rebind [of s0 d4 a4 t4 df ?g5 ?st5 d5, OF x4 df p5] by blast
  have "apply_filters_store s0 df sel = Inr (a5, t5)"
    unfolding apply_filters_store_def
    by (simp only: bind_result.simps prod.case e0 e1 e2 e3 e4 e5)
  with pure x5 show ?thesis by blast
qed

text \<open>
  C9. Run on a store of objects, \<^verbatim>\<open>apply_filters\<close> changes no object that existed
  before the call, the source table among them; its result is a new object, equal to
  the result of the functional model, with the columns of the source and with rows
  that are a subsequence of the rows of the source.
\<close>

theorem apply_filters_leaves_source:
  assumes "df < length s0"
  shows "\<exists>out s. apply_filters_store s0 df sel = Inr (out, s) \<and>
           take (length s0) s = s0 \<and> s ! df = s0 ! df \<and>
           out \<noteq> df \<and> out < length s \<and>
           apply_filters (s0 ! df) sel = Inr (s ! out) \<and>
           columns (s ! out) = columns (s0 ! df) \<and>
           subseq (rows (s ! out)) (rows (s0 ! df)) \<and>
           set (rows (s ! out)) \<subseteq> set (rows (s0 ! df))"
proof -
  from apply_filters_store_refines [OF assms, of sel]
  obtain out s d where run: "apply_filters_store s0 df sel = Inr (out, s)"
    and pure: "apply_filters (s0 ! df) sel = Inr d" and ext: "extends s0 d (out, s)"
    by blast
  from pure have d: "d = (s0 ! df)\<lparr>rows := filter (keeps (s0 ! df) sel) (rows (s0 ! df))\<rparr>"
    by (simp add: apply_filters_rows)
  from ext assms have "take (length s0) s = s0" "out \<noteq> df" "out < length s" "s ! out = d"
    by (auto simp: extends_def)
  with run pure d extends_read [OF ext assms] show ?thesis
    by simp
qed

theorem apply_filters_leaves_source_witness:
  "(0::nat) < length [review_frame] \<and>
   apply_filters_store [review_frame] 0 review_pick =
     Inr (2, [review_frame, review_frame,
              review_frame\<lparr>rows :=
                [blank_row\<lparr>review_score := Num 5, payment_type := Some ''credit_card''\<rparr>,
                 blank_row\<lparr>review_score := Num 4, payment_type := Some ''credit_card''\<rparr>]\<rparr>])"
proof -
  have h: "(0::nat) < length [review_frame]" by simp
  have v: "apply_filters review_frame review_pick =
     Inr (review_frame\<lparr>rows :=
       [blank_row\<lparr>review_score := Num 5, payment_type := Some ''credit_card''\<rparr>,
        blank_row\<lparr>review_score := Num 4, payment_type := Some ''credit_card''\<rparr>]\<rparr>)"
    by (simp add: eval_filters review_frame_def review_pick_def)
  have len: "\<And>out s. apply_filters_store [review_frame] 0 review_pick = Inr (out, s) \<Longrightarrow>
      length s = 3 \<and> out = 2 \<and> s ! 1 = review_frame"
    by (simp add: apply_filters_store_def copy_frame_def rebind_def new_object_def
        has_column_def review_frame_def review_pick_def where_between_def column_def)
  from apply_filters_leaves_source [OF h, of review_pick]
  obtain out s where run: "apply_filters_store [review_frame] 0 review_pick = Inr (out, s)"
    and src: "s ! 0 = review_frame" and res: "apply_filters review_frame review_pick = Inr (s ! out)"
    by auto
  from len [OF run] have l: "length s = 3" and o: "out = 2" and c: "s ! 1 = review_frame"
    by simp_all
  from res v o have r: "s ! 2 = review_frame\<lparr>rows :=
       [blank_row\<lparr>review_score := Num 5, payment_type := Some ''credit_card''\<rparr>,
        blank_row\<lparr>review_score := Num 4, payment_type := Some ''credit_card''\<rparr>]\<rparr>"
    by simp
  from l obtain x y z where s: "s = [x, y, z]"
    by (cases s; simp; rename_tac a t; case_tac t; simp; rename_tac b u; case_tac u; simp)
  with src c r run o show ?thesis by simp
qed

section \<open>Properties of the charts\<close>

lemma eleven_states_sums:
  "groupby (map customer_state (rows eleven_states)) (map total_order_value (rows eleven_states)) series_sum =
   [(''A'', Num 1), (''B'', Num 2), (''C'', Num 3), (''D'', Num 4), (''E'', Num 5), (''F'', Num 6),
    (''G'', Num 7), (''H'', Num 8), (''I'', Num 9), (''J'', Num 10), (''K'', Num 11)]"
  by (simp add: eleven_states_def state_row_def blank_row_def groupby_def series_sum_def
      List.map_filter_def)

text \<open>
  C1. The claim is that the chart titled "Top 10 States by Sales" shows the 10 states
  with the largest summed \<^verbatim>\<open>total_order_value\<close>, in ascending order. The code sorts
  ascending and then takes the first 10, which are the 10 smallest sums. In
  \<open>eleven_states\<close> the sums of the states A to K are 1 to 11: the figure shows A to J
  and leaves out K, the state with the largest sum, where the top-N rule of the
  specification gives B to K.
\<close>

theorem top_states_chart_shows_lowest:
  "state_sales_chart eleven_states =
     Inr \<lparr>kind = HBar, title = ''Top 10 States by Sales'',
          x_data = [Value (Num 1), Value (Num 2), Value (Num 3), Value (Num 4), Value (Num 5),
                    Value (Num 6), Value (Num 7), Value (Num 8), Value (Num 9), Value (Num 10)],
          y_data = [Text ''A'', Text ''B'', Text ''C'', Text ''D'', Text ''E'',
                    Text ''F'', Text ''G'', Text ''H'', Text ''I'', Text ''J''],
          trendline = None\<rparr> \<and>
   top_n_spec 10 (groupby (map customer_state (rows eleven_states))
                    (map total_order_value (rows eleven_states)) series_sum) =
     [(''B'', Num 2), (''C'', Num 3), (''D'', Num 4), (''E'', Num 5), (''F'', Num 6),
      (''G'', Num 7), (''H'', Num 8), (''I'', Num 9), (''J'', Num 10), (''K'', Num 11)]"
proof -
  have cols: "has_column ''customer_state'' eleven_states" "has_column ''total_order_value'' eleven_states"
    by (simp_all add: has_column_def eleven_states_def)
  show ?thesis
    unfolding state_sales_chart_def column_def top_n_spec_def
    by (simp add: cols eleven_states_sums sort_values_def head_def values_of_def index_of_def
        px_bar_def)
qed

section \<open>Properties of the page\<close>

text \<open>
  C8. The loader returns no table if and only if the input file does not exist. In that
  case the page is the header and the two error messages, and nothing else: no widget
  of the filter, no metric, no chart and no download.
\<close>

theorem load_failure_short_circuits:
  "(fst (load_ecommerce_data fs) = None \<longleftrightarrow> fs ''ecommerce.csv'' = None) \<and>
   (fs ''ecommerce.csv'' = None \<longrightarrow>
      main fs ui now =
        Inr [Markdown ''E-commerce Analytics Dashboard'',
             ErrorBox ''Please make sure 'ecommerce.csv' file is in the same directory as this script.'',
             ErrorBox ''Unable to load the dataset. Please check if 'ecommerce.csv' exists in the current directory.''] \<and>
      (\<exists>evs. main fs ui now = Inr evs \<and> list_all (\<lambda>e. \<not> data_event e) evs))"
  by (simp add: load_ecommerce_data_def main_def split: option.splits)

theorem load_failure_short_circuits_witness:
  "(\<lambda>p. None :: dataframe option) ''ecommerce.csv'' = None \<and>
   fst (load_ecommerce_data (\<lambda>p. None)) = None \<and>
   main (\<lambda>p. None) \<lparr>chosen = review_pick, show_raw_data = True\<rparr> (\<lambda>k. ''20260101_120000'') =
     Inr [Markdown ''E-commerce Analytics Dashboard'',
          ErrorBox ''Please make sure 'ecommerce.csv' file is in the same directory as this script.'',
          ErrorBox ''Unable to load the dataset. Please check if 'ecommerce.csv' exists in the current directory.'']"
  using load_failure_short_circuits [of "\<lambda>p. None" "\<lparr>chosen = review_pick, show_raw_data = True\<rparr>" "\<lambda>k. ''20260101_120000''"]
  by simp

section \<open>Removing a column: properties\<close>

lemma has_column_drop: "has_column n (drop_column c df) \<longleftrightarrow> n \<noteq> c \<and> has_column n df"
  by (auto simp: has_column_def drop_column_def)

lemma rows_drop [simp]: "rows (drop_column c df) = rows df"
  by (simp add: drop_column_def)

lemma len_drop [simp]: "len (drop_column c df) = len df"
  by (simp add: len_def)

lemma calculate_kpis_drop:
  "\<exists>k. calculate_kpis df = Inr k \<and> calculate_kpis (drop_column c df) = Inr (zero_metric c k)"
  by (simp add: calculate_kpis_def metric_value has_column_drop zero_metric_def)

lemma column_drop:
  "n \<noteq> c \<Longrightarrow> column (drop_column c df) n field = column df n field"
  by (simp add: column_def has_column_drop)

lemma plot_if_drop:
  assumes run: "plot_if g X = Inr blk"
      and ttl: "\<And>f. g \<Longrightarrow> X = Inr f \<Longrightarrow> title f = T"
      and g': "g' \<longleftrightarrow> g \<and> c \<notin> set (chart_columns T)"
      and same: "c \<notin> set (chart_columns T) \<Longrightarrow> X' = X"
  shows "plot_if g' X' = Inr (filter (shown_without c) blk)"
proof (cases g)
  case False
  with run g' show ?thesis by (simp add: plot_if_def)
next
  case True
  with run obtain f where f: "X = Inr f" and blk: "blk = [PlotlyChart f]"
    by (auto simp: plot_if_def bind_result_Inr)
  from ttl [OF True f] have t: "title f = T" .
  show ?thesis
  proof (cases "c \<in> set (chart_columns T)")
    case True
    with g' blk t show ?thesis by (simp add: plot_if_def)
  next
    case False
    with \<open>g\<close> g' f blk t same show ?thesis by (simp add: plot_if_def)
  qed
qed

lemma monthly_sales_block:
  assumes "plot_if (has_column ''order_month'' df \<and> has_column ''total_order_value'' df)
             (monthly_sales_chart df) = Inr blk"
  shows "plot_if (has_column ''order_month'' (drop_column c df) \<and> has_column ''total_order_value'' (drop_column c df))
           (monthly_sales_chart (drop_column c df)) = Inr (filter (shown_without c) blk)"
  using assms
  by (rule plot_if_drop [where T = "''Total Monthly Sales Over Time''"])
    (auto simp: monthly_sales_chart_def px_bar_def column_def has_column_drop chart_columns_def Let_def
      split: if_splits)

lemma state_sales_block:
  assumes "plot_if (has_column ''customer_state'' df \<and> has_column ''total_order_value'' df)
             (state_sales_chart df) = Inr blk"
  shows "plot_if (has_column ''customer_state'' (drop_column c df) \<and> has_column ''total_order_value'' (drop_column c df))
           (state_sales_chart (drop_column c df)) = Inr (filter (shown_without c) blk)"
  using assms
  by (rule plot_if_drop [where T = "''Top 10 States by Sales''"])
    (auto simp: state_sales_chart_def px_bar_def column_def has_column_drop chart_columns_def Let_def
      split: if_splits)

lemma category_count_block:
  assumes "plot_if (has_column ''product_category_name_english'' df)
             (category_count_chart df) = Inr blk"
  shows "plot_if (has_column ''product_category_name_english'' (drop_column c df))
           (category_count_chart (drop_column c df)) = Inr (filter (shown_without c) blk)"
  using assms
  by (rule plot_if_drop [where T = "''Top 10 Product Categories by Count''"])
    (auto simp: category_count_chart_def px_bar_def column_def has_column_drop chart_columns_def Let_def
      split: if_splits)

lemma price_histogram_block:
  assumes "plot_if (has_column ''price'' df)
             (price_histogram df) = Inr blk"
  shows "plot_if (has_column ''price'' (drop_column c df))
           (price_histogram (drop_column c df)) = Inr (filter (shown_without c) blk)"
  using assms
  by (rule plot_if_drop [where T = "''Distribution of Product Prices''"])
    (auto simp: price_histogram_def px_bar_def column_def has_column_drop chart_columns_def Let_def
      split: if_splits)

lemma freight_scatter_block:
  assumes "plot_if (has_column ''price'' df \<and> has_column ''freight_value'' df)
             (freight_scatter df) = Inr blk"
  shows "plot_if (has_column ''price'' (drop_column c df) \<and> has_column ''freight_value'' (drop_column c df))
           (freight_scatter (drop_column c df)) = Inr (filter (shown_without c) blk)"
  using assms
  by (rule plot_if_drop [where T = "''Freight Cost vs Product Price''"])
    (auto simp: freight_scatter_def px_bar_def column_def has_column_drop chart_columns_def Let_def
      split: if_splits)

lemma delivery_box_block:
  assumes "plot_if (has_column ''review_score'' df \<and> has_column ''delivery_days'' df)
             (delivery_box df) = Inr blk"
  shows "plot_if (has_column ''review_score'' (drop_column c df) \<and> has_column ''delivery_days'' (drop_column c df))
           (delivery_box (drop_column c df)) = Inr (filter (shown_without c) blk)"
  using assms
  by (rule plot_if_drop [where T = "''Delivery Time by Review Score''"])
    (auto simp: delivery_box_def px_bar_def column_def has_column_drop chart_columns_def Let_def
      split: if_splits)

lemma state_delivery_block:
  assumes "plot_if (has_column ''customer_state'' df \<and> has_column ''delivery_days'' df)
             (state_delivery_chart df) = Inr blk"
  shows "plot_if (has_column ''customer_state'' (drop_column c df) \<and> has_column ''delivery_days'' (drop_column c df))
           (state_delivery_chart (drop_column c df)) = Inr (filter (shown_without c) blk)"
  using assms
  by (rule plot_if_drop [where T = "''Top 10 States by Avg Delivery Time''"])
    (auto simp: state_delivery_chart_def px_bar_def column_def has_column_drop chart_columns_def Let_def
      split: if_splits)

lemma delay_scatter_block:
  assumes "plot_if (has_column ''estimated_days'' df \<and> has_column ''delivery_delay'' df)
             (delay_scatter df) = Inr blk"
  shows "plot_if (has_column ''estimated_days'' (drop_column c df) \<and> has_column ''delivery_delay'' (drop_column c df))
           (delay_scatter (drop_column c df)) = Inr (filter (shown_without c) blk)"
  using assms
  by (rule plot_if_drop [where T = "''Delivery Delay vs. Estimated Delivery Time''"])
    (auto simp: delay_scatter_def px_bar_def column_def has_column_drop chart_columns_def Let_def
      split: if_splits)

lemma payment_pie_block:
  assumes "plot_if (has_column ''payment_type'' df)
             (payment_pie df) = Inr blk"
  shows "plot_if (has_column ''payment_type'' (drop_column c df))
           (payment_pie (drop_column c df)) = Inr (filter (shown_without c) blk)"
  using assms
  by (rule plot_if_drop [where T = "''Payment Method Distribution''"])
    (auto simp: payment_pie_def px_bar_def column_def has_column_drop chart_columns_def Let_def
      split: if_splits)

lemma payment_review_block:
  assumes "plot_if (has_column ''payment_type'' df \<and> has_column ''review_score'' df)
             (payment_review_chart df) = Inr blk"
  shows "plot_if (has_column ''payment_type'' (drop_column c df) \<and> has_column ''review_score'' (drop_column c df))
           (payment_review_chart (drop_column c df)) = Inr (filter (shown_without c) blk)"
  using assms
  by (rule plot_if_drop [where T = "''Avg Review Score by Payment Type''"])
    (auto simp: payment_review_chart_def px_bar_def column_def has_column_drop chart_columns_def Let_def
      split: if_splits)

lemma create_visualizations_drop:
  assumes "create_visualizations df = Inr evs"
  shows "create_visualizations (drop_column c df) = Inr (filter (shown_without c) evs)"
proof -
  from assms obtain b1 b2 b3 b4 b5 b6 b7 b8 b9 b10 where
    b1: "plot_if (has_column ''order_month'' df \<and> has_column ''total_order_value'' df)
           (monthly_sales_chart df) = Inr b1" and
    b2: "plot_if (has_column ''customer_state'' df \<and> has_column ''total_order_value'' df)
           (state_sales_chart df) = Inr b2" and
    b3: "plot_if (has_column ''product_category_name_english'' df)
           (category_count_chart df) = Inr b3" and
    b4: "plot_if (has_column ''price'' df)
           (price_histogram df) = Inr b4" and
    b5: "plot_if (has_column ''price'' df \<and> has_column ''freight_value'' df)
           (freight_scatter df) = Inr b5" and
    b6: "plot_if (has_column ''review_score'' df \<and> has_column ''delivery_days'' df)
           (delivery_box df) = Inr b6" and
    b7: "plot_if (has_column ''customer_state'' df \<and> has_column ''delivery_days'' df)
           (state_delivery_chart df) = Inr b7" and
    b8: "plot_if (has_column ''estimated_days'' df \<and> has_column ''delivery_delay'' df)
           (delay_scatter df) = Inr b8" and
    b9: "plot_if (has_column ''payment_type'' df)
           (payment_pie df) = Inr b9" and
    b10: "plot_if (has_column ''payment_type'' df \<and> has_column ''review_score'' df)
           (payment_review_chart df) = Inr b10" and
    evs: "evs =
          [Markdown ''---'', Markdown ''### Data Visualizations'',
           Markdown ''#### Sales Analytics''] @ b1 @ b2 @
          [Markdown ''#### Product Analytics''] @ b3 @ b4 @ b5 @
          [Markdown ''#### Delivery Analytics''] @ b6 @ b7 @ b8 @
          [Markdown ''#### Payment Analytics''] @ b9 @ b10"
    unfolding create_visualizations_def by (auto simp: bind_result_Inr)
  note d = monthly_sales_block [OF b1, of c] state_sales_block [OF b2, of c]
    category_count_block [OF b3, of c] price_histogram_block [OF b4, of c]
    freight_scatter_block [OF b5, of c] delivery_box_block [OF b6, of c]
    state_delivery_block [OF b7, of c] delay_scatter_block [OF b8, of c]
    payment_pie_block [OF b9, of c] payment_review_block [OF b10, of c]
  have "create_visualizations (drop_column c df) =
      Inr ([Markdown ''---'', Markdown ''### Data Visualizations'',
           Markdown ''#### Sales Analytics''] @ filter (shown_without c) b1 @ filter (shown_without c) b2 @
          [Markdown ''#### Product Analytics''] @ filter (shown_without c) b3 @ filter (shown_without c) b4 @ filter (shown_without c) b5 @
          [Markdown ''#### Delivery Analytics''] @ filter (shown_without c) b6 @ filter (shown_without c) b7 @ filter (shown_without c) b8 @
          [Markdown ''#### Payment Analytics''] @ filter (shown_without c) b9 @ filter (shown_without c) b10)"
    unfolding create_visualizations_def
    by (simp only: d bind_result.simps)
  then show ?thesis
    by (simp add: evs)
qed

lemma keeps_drop_months:
  "keeps (drop_column ''order_month'' df) (sel\<lparr>selected_months := ms\<rparr>) =
   keeps (drop_column ''order_month'' df) sel"
  by (simp add: keeps_def [abs_def] has_column_drop)

lemma keeps_drop_category:
  "keeps (drop_column ''product_category_name_english'' df) (sel\<lparr>selected_category := ms\<rparr>) =
   keeps (drop_column ''product_category_name_english'' df) sel"
  by (simp add: keeps_def [abs_def] has_column_drop)

lemma keeps_drop_states:
  "keeps (drop_column ''customer_state'' df) (sel\<lparr>selected_states := ms\<rparr>) =
   keeps (drop_column ''customer_state'' df) sel"
  by (simp add: keeps_def [abs_def] has_column_drop)

lemma keeps_drop_review:
  "keeps (drop_column ''review_score'' df) (sel\<lparr>min_review := lo, max_review := hi\<rparr>) =
   keeps (drop_column ''review_score'' df) sel"
  by (simp add: keeps_def [abs_def] has_column_drop)

lemma keeps_drop_payment:
  "keeps (drop_column ''payment_type'' df) (sel\<lparr>selected_payment := p\<rparr>) =
   keeps (drop_column ''payment_type'' df) sel"
  by (simp add: keeps_def [abs_def] has_column_drop)

text \<open>
  The page can raise in two places: in the sidebar (\<^verbatim>\<open>int\<close> of a missing smallest
  or largest score, \<^verbatim>\<open>sorted\<close> on a column that mixes labels with missing values)
  and in \<^verbatim>\<open>px.bar\<close> on an empty series. Neither comes from a missing column, and
  removing a column adds no such error.
\<close>

lemma widget_options_drop:
  "\<exists>opts'. widget_options (drop_column c df) name field reverse = Inr opts'"
  if "widget_options df name field reverse = Inr opts"
proof (cases "name = c")
  case True
  then show ?thesis by (simp add: widget_options_def has_column_drop)
next
  case False
  then have "widget_options (drop_column c df) name field reverse =
             widget_options df name field reverse"
    by (simp add: widget_options_def column_def has_column_drop)
  with that show ?thesis by simp
qed

lemma review_slider_drop:
  assumes "review_slider df ui = Inr (rng, slider)"
  shows "\<exists>rng' slider'. review_slider (drop_column c df) ui = Inr (rng', slider') \<and>
           (c \<noteq> ''review_score'' \<longrightarrow> rng' = rng)"
proof (cases "c = ''review_score''")
  case True
  then show ?thesis by (simp add: review_slider_def has_column_drop)
next
  case False
  then have "review_slider (drop_column c df) ui = review_slider df ui"
    by (simp add: review_slider_def review_slider_default_def column_def has_column_drop)
  with assms False show ?thesis by simp
qed

lemma apply_filters_drop_review:
  "apply_filters (drop_column ''review_score'' df) (sel\<lparr>min_review := lo, max_review := hi\<rparr>) =
   apply_filters (drop_column ''review_score'' df) sel"
  by (simp only: apply_filters_rows keeps_drop_review)

lemma sidebar_drop:
  assumes "sidebar df ui = Inr (sel, widgets)"
  shows "\<exists>sel' widgets'. sidebar (drop_column c df) ui = Inr (sel', widgets') \<and>
           apply_filters (drop_column c df) sel' = apply_filters (drop_column c df) sel"
proof -
  from assms obtain months categories states rng slider payments where
    m: "widget_options df ''order_month'' order_month False = Inr months" and
    cs: "widget_options df ''product_category_name_english'' product_category_name_english True =
         Inr categories" and
    st: "widget_options df ''customer_state'' customer_state True = Inr states" and
    r: "review_slider df ui = Inr (rng, slider)" and
    p: "widget_options df ''payment_type'' payment_type False = Inr payments" and
    sel: "sel = (chosen ui)\<lparr>min_review := fst rng, max_review := snd rng\<rparr>"
    by (auto simp: sidebar_def bind_result_Inr)
  from widget_options_drop [OF m, of c] obtain months' where
    m': "widget_options (drop_column c df) ''order_month'' order_month False = Inr months'" ..
  from widget_options_drop [OF cs, of c] obtain categories' where
    cs': "widget_options (drop_column c df) ''product_category_name_english''
            product_category_name_english True = Inr categories'" ..
  from widget_options_drop [OF st, of c] obtain states' where
    st': "widget_options (drop_column c df) ''customer_state'' customer_state True = Inr states'" ..
  from widget_options_drop [OF p, of c] obtain payments' where
    p': "widget_options (drop_column c df) ''payment_type'' payment_type False = Inr payments'" ..
  from review_slider_drop [OF r, of c] obtain rng' slider' where
    r': "review_slider (drop_column c df) ui = Inr (rng', slider')" and
    same: "c \<noteq> ''review_score'' \<longrightarrow> rng' = rng"
    by blast
  let ?sel' = "(chosen ui)\<lparr>min_review := fst rng', max_review := snd rng'\<rparr>"
  have run: "sidebar (drop_column c df) ui =
      Inr (?sel', [SidebarHeader ''Filter Options'',
                   Multiselect ''Select Months:'' months',
                   Multiselect ''Select Product Category:'' categories',
                   Multiselect ''Select States:'' states'] @
                  slider' @
                  [Selectbox ''Payment Type:'' payments'])"
    by (simp add: sidebar_def m' cs' st' p' r')
  have "apply_filters (drop_column c df) ?sel' = apply_filters (drop_column c df) sel"
  proof (cases "c = ''review_score''")
    case True
    show ?thesis
      unfolding sel True
      using apply_filters_drop_review [where df = df and sel = "chosen ui"
          and lo = "fst rng'" and hi = "snd rng'"]
        apply_filters_drop_review [where df = df and sel = "chosen ui"
          and lo = "fst rng" and hi = "snd rng"]
      by simp
  next
    case False
    with same show ?thesis by (simp add: sel)
  qed
  with run show ?thesis by blast
qed

lemmas eval_charts =
  create_visualizations_def plot_if_def monthly_sales_chart_def state_sales_chart_def
  category_count_chart_def price_histogram_def freight_scatter_def delivery_box_def
  state_delivery_chart_def delay_scatter_def payment_pie_def payment_review_chart_def
  px_bar_def column_def has_column_def groupby_def sort_values_def head_def value_counts_def
  series_sum_def series_mean_def List.map_filter_def values_of_def index_of_def Let_def

lemmas eval_sidebar =
  sidebar_def review_slider_def review_slider_default_def widget_options_def py_sorted_def
  unique_def column_def has_column_def series_min_def series_max_def List.map_filter_def
  Let_def

text \<open>
  C7, as stated, fails: a component can raise on a table from which a column has been
  removed. In \<open>stateless_frame\<close> no row has a \<^verbatim>\<open>customer_state\<close>; without the
  column \<^verbatim>\<open>price\<close> the chart building still reaches \<^verbatim>\<open>px.bar\<close> with an empty
  series of sales by state and raises \<^verbatim>\<open>ValueError\<close>. In \<open>unrated_frame\<close> no row
  has a \<^verbatim>\<open>review_score\<close>; without the column \<^verbatim>\<open>price\<close> the sidebar of
  \<^verbatim>\<open>apply_filters\<close> still raises \<^verbatim>\<open>ValueError\<close> at line 52.
\<close>

theorem removing_a_column_can_raise:
  "create_visualizations (drop_column ''price'' stateless_frame) = Inl ValueError \<and>
   sidebar (drop_column ''price'' unrated_frame) review_input = Inl ValueError"
  by (simp add: eval_charts eval_sidebar drop_column_def stateless_frame_def unrated_frame_def
      blank_row_def)

text \<open>
  C7, amended. Removing any column \<open>c\<close> from a table adds no error. The filtering
  statements of \<^verbatim>\<open>apply_filters\<close> and \<^verbatim>\<open>calculate_kpis\<close> raise nothing, with or
  without \<open>c\<close>; where the sidebar of \<^verbatim>\<open>apply_filters\<close> or the chart building
  returns on the full table, it returns on the table without \<open>c\<close>. The filter returns
  the rows that pass the predicates of the columns still present, and the selection
  made for a removed filter column does not matter; the metrics are those of the full
  table with the metric of \<open>c\<close> set to 0; the page of charts is that of the full table
  without the figures built from \<open>c\<close>.
\<close>

theorem removing_a_column:
  "(\<exists>f. apply_filters (drop_column c df) sel = Inr f \<and>
        columns f = columns (drop_column c df) \<and>
        rows f = filter (keeps (drop_column c df) sel) (rows df)) \<and>
   apply_filters (drop_column ''order_month'' df) (sel\<lparr>selected_months := ms\<rparr>) =
     apply_filters (drop_column ''order_month'' df) sel \<and>
   apply_filters (drop_column ''product_category_name_english'' df) (sel\<lparr>selected_category := ms\<rparr>) =
     apply_filters (drop_column ''product_category_name_english'' df) sel \<and>
   apply_filters (drop_column ''customer_state'' df) (sel\<lparr>selected_states := ms\<rparr>) =
     apply_filters (drop_column ''customer_state'' df) sel \<and>
   apply_filters (drop_column ''review_score'' df) (sel\<lparr>min_review := lo, max_review := hi\<rparr>) =
     apply_filters (drop_column ''review_score'' df) sel \<and>
   apply_filters (drop_column ''payment_type'' df) (sel\<lparr>selected_payment := p\<rparr>) =
     apply_filters (drop_column ''payment_type'' df) sel \<and>
   (\<exists>k. calculate_kpis df = Inr k \<and>
        calculate_kpis (drop_column c df) = Inr (zero_metric c k)) \<and>
   (sidebar df ui = Inr (chosen_sel, widgets) \<longrightarrow>
      (\<exists>sel' widgets'. sidebar (drop_column c df) ui = Inr (sel', widgets') \<and>
         apply_filters (drop_column c df) sel' = apply_filters (drop_column c df) chosen_sel)) \<and>
   (create_visualizations df = Inr evs \<longrightarrow>
      create_visualizations (drop_column c df) = Inr (filter (shown_without c) evs))"
proof -
  have "\<exists>f. apply_filters (drop_column c df) sel = Inr f \<and>
        columns f = columns (drop_column c df) \<and>
        rows f = filter (keeps (drop_column c df) sel) (rows df)"
    by (simp add: apply_filters_rows)
  moreover have "apply_filters (drop_column ''order_month'' df) (sel\<lparr>selected_months := ms\<rparr>) =
     apply_filters (drop_column ''order_month'' df) sel"
    by (simp only: apply_filters_rows keeps_drop_months)
  moreover have "apply_filters (drop_column ''product_category_name_english'' df) (sel\<lparr>selected_category := ms\<rparr>) =
     apply_filters (drop_column ''product_category_name_english'' df) sel"
    by (simp only: apply_filters_rows keeps_drop_category)
  moreover have "apply_filters (drop_column ''customer_state'' df) (sel\<lparr>selected_states := ms\<rparr>) =
     apply_filters (drop_column ''customer_state'' df) sel"
    by (simp only: apply_filters_rows keeps_drop_states)
  moreover have "apply_filters (drop_column ''review_score'' df) (sel\<lparr>min_review := lo, max_review := hi\<rparr>) =
     apply_filters (drop_column ''review_score'' df) sel"
    by (rule apply_filters_drop_review)
  moreover have "apply_filters (drop_column ''payment_type'' df) (sel\<lparr>selected_payment := p\<rparr>) =
     apply_filters (drop_column ''payment_type'' df) sel"
    by (simp only: apply_filters_rows keeps_drop_payment)
  moreover note calculate_kpis_drop [of df c]
  moreover have "sidebar df ui = Inr (chosen_sel, widgets) \<longrightarrow>
      (\<exists>sel' widgets'. sidebar (drop_column c df) ui = Inr (sel', widgets') \<and>
         apply_filters (drop_column c df) sel' = apply_filters (drop_column c df) chosen_sel)"
    using sidebar_drop [of df ui chosen_sel widgets c] by blast
  moreover have "create_visualizations df = Inr evs \<longrightarrow>
      create_visualizations (drop_column c df) = Inr (filter (shown_without c) evs)"
    using create_visualizations_drop [of df evs c] by blast
  ultimately show ?thesis by blast
qed

theorem removing_a_column_witness:
  "sidebar review_frame review_input =
     Inr (review_pick,
          [SidebarHeader ''Filter Options'',
           Multiselect ''Select Months:'' [Some ''All''],
           Multiselect ''Select Product Category:'' [Some ''All''],
           Multiselect ''Select States:'' [Some ''All''],
           Slider ''Review Score Range:'' 3 5,
           Selectbox ''Payment Type:'' [Some ''All'', Some ''credit_card'', Some ''voucher'']]) \<and>
   sidebar (drop_column ''review_score'' review_frame) review_input =
     Inr (review_pick\<lparr>min_review := 1, max_review := 5\<rparr>,
          [SidebarHeader ''Filter Options'',
           Multiselect ''Select Months:'' [Some ''All''],
           Multiselect ''Select Product Category:'' [Some ''All''],
           Multiselect ''Select States:'' [Some ''All''],
           Selectbox ''Payment Type:'' [Some ''All'', Some ''credit_card'', Some ''voucher'']]) \<and>
   apply_filters (drop_column ''review_score'' review_frame)
       (review_pick\<lparr>min_review := 1, max_review := 5\<rparr>) =
     Inr (drop_column ''review_score'' review_frame) \<and>
   calculate_kpis (drop_column ''review_score'' review_frame) =
     Inr \<lparr>total_orders = 3, total_revenue = Num 0, avg_rating = Num 0,
          avg_freight_cost = Num 0, total_customers = 0, avg_price = Num 0\<rparr> \<and>
   create_visualizations review_frame =
     Inr [Markdown ''---'', Markdown ''### Data Visualizations'',
          Markdown ''#### Sales Analytics'', Markdown ''#### Product Analytics'',
          Markdown ''#### Delivery Analytics'', Markdown ''#### Payment Analytics'',
          PlotlyChart \<lparr>kind = Pie, title = ''Payment Method Distribution'',
            x_data = [Text ''credit_card'', Text ''voucher''],
            y_data = [Value (Num 2), Value (Num 1)], trendline = None\<rparr>,
          PlotlyChart \<lparr>kind = VBar, title = ''Avg Review Score by Payment Type'',
            x_data = [Text ''voucher'', Text ''credit_card''],
            y_data = [Value (Num 3), Value (Num (9 / 2))], trendline = None\<rparr>] \<and>
   create_visualizations (drop_column ''review_score'' review_frame) =
     Inr [Markdown ''---'', Markdown ''### Data Visualizations'',
          Markdown ''#### Sales Analytics'', Markdown ''#### Product Analytics'',
          Markdown ''#### Delivery Analytics'', Markdown ''#### Payment Analytics'',
          PlotlyChart \<lparr>kind = Pie, title = ''Payment Method Distribution'',
            x_data = [Text ''credit_card'', Text ''voucher''],
            y_data = [Value (Num 2), Value (Num 1)], trendline = None\<rparr>]"
proof -
  let ?evs = "[Markdown ''---'', Markdown ''### Data Visualizations'',
          Markdown ''#### Sales Analytics'', Markdown ''#### Product Analytics'',
          Markdown ''#### Delivery Analytics'', Markdown ''#### Payment Analytics'',
          PlotlyChart \<lparr>kind = Pie, title = ''Payment Method Distribution'',
            x_data = [Text ''credit_card'', Text ''voucher''],
            y_data = [Value (Num 2), Value (Num 1)], trendline = None\<rparr>,
          PlotlyChart \<lparr>kind = VBar, title = ''Avg Review Score by Payment Type'',
            x_data = [Text ''voucher'', Text ''credit_card''],
            y_data = [Value (Num 3), Value (Num (9 / 2))], trendline = None\<rparr>]"
  let ?widgets = "[SidebarHeader ''Filter Options'',
           Multiselect ''Select Months:'' [Some ''All''],
           Multiselect ''Select Product Category:'' [Some ''All''],
           Multiselect ''Select States:'' [Some ''All''],
           Slider ''Review Score Range:'' 3 5,
           Selectbox ''Payment Type:'' [Some ''All'', Some ''credit_card'', Some ''voucher'']]"
  have k: "calculate_kpis review_frame =
     Inr \<lparr>total_orders = 3, total_revenue = Num 0, avg_rating = Num 4,
          avg_freight_cost = Num 0, total_customers = 0, avg_price = Num 0\<rparr>"
    by (simp add: calculate_kpis_def metric_def column_def has_column_def review_frame_def
        len_def blank_row_def series_mean_def)
  have v: "create_visualizations review_frame = Inr ?evs"
    by (simp add: eval_charts review_frame_def blank_row_def)
  have sb: "sidebar review_frame review_input = Inr (review_pick, ?widgets)"
    by (simp add: eval_sidebar review_frame_def review_input_def review_pick_def blank_row_def)
  have sb': "sidebar (drop_column ''review_score'' review_frame) review_input =
     Inr (review_pick\<lparr>min_review := 1, max_review := 5\<rparr>,
          [SidebarHeader ''Filter Options'',
           Multiselect ''Select Months:'' [Some ''All''],
           Multiselect ''Select Product Category:'' [Some ''All''],
           Multiselect ''Select States:'' [Some ''All''],
           Selectbox ''Payment Type:'' [Some ''All'', Some ''credit_card'', Some ''voucher'']])"
    by (simp add: eval_sidebar drop_column_def review_frame_def review_input_def review_pick_def
        blank_row_def)
  have r: "filter (keeps (drop_column ''review_score'' review_frame)
                     (review_pick\<lparr>min_review := 1, max_review := 5\<rparr>)) (rows review_frame) =
      rows review_frame"
    by (simp add: keeps_def has_column_drop review_pick_def)
  note inst = removing_a_column [where c = "''review_score''" and df = review_frame
      and sel = "review_pick\<lparr>min_review := 1, max_review := 5\<rparr>" and ui = review_input
      and chosen_sel = review_pick and widgets = "?widgets" and evs = "?evs"]
  from inst obtain f where f: "apply_filters (drop_column ''review_score'' review_frame)
        (review_pick\<lparr>min_review := 1, max_review := 5\<rparr>) = Inr f"
      "columns f = columns (drop_column ''review_score'' review_frame)"
      "rows f = filter (keeps (drop_column ''review_score'' review_frame)
                  (review_pick\<lparr>min_review := 1, max_review := 5\<rparr>)) (rows review_frame)"
    by blast
  from f r have fd: "f = drop_column ''review_score'' review_frame"
    by (simp add: drop_column_def)
  from inst have kk: "\<exists>k. calculate_kpis review_frame = Inr k \<and>
        calculate_kpis (drop_column ''review_score'' review_frame) = Inr (zero_metric ''review_score'' k)"
    by blast
  from inst v have vv: "create_visualizations (drop_column ''review_score'' review_frame) =
      Inr (filter (shown_without ''review_score'') ?evs)"
    by blast
  from inst sb have "\<exists>sel' widgets'.
      sidebar (drop_column ''review_score'' review_frame) review_input = Inr (sel', widgets') \<and>
      apply_filters (drop_column ''review_score'' review_frame) sel' =
        apply_filters (drop_column ''review_score'' review_frame) review_pick"
    by blast
  with sb' have same: "apply_filters (drop_column ''review_score'' review_frame)
        (review_pick\<lparr>min_review := 1, max_review := 5\<rparr>) =
      apply_filters (drop_column ''review_score'' review_frame) review_pick"
    by auto
  from f(1) fd kk k vv v sb sb' same show ?thesis
    by (simp add: zero_metric_def chart_columns_def)
qed

end
